theory Spec2Isabelle
  imports Complex_Main "HOL-Library.Word"
begin

section \<open>Common data\<close>

text \<open>
  Bytes are 8-bit words, Go's \<open>uint64\<close> is a 64-bit word and \<open>int64\<close> is the same
  word read with \<open>sint\<close>. Go strings are byte strings: \<open>string\<close>. \<open>*big.Int\<close> is
  \<open>int\<close>, with \<open>option\<close> where the source tests the pointer for nil.
\<close>

type_synonym byte = "8 word"
type_synonym bytes = "byte list"
type_synonym u64 = "64 word"

text \<open>\<open>common.Hash\<close> is \<open>[32]byte\<close> and \<open>common.Address\<close> is \<open>[20]byte\<close>.\<close>

type_synonym Hash = "byte list"
type_synonym Address = "byte list"

subsection \<open>Formatting verbs of \<open>fmt.Sprintf\<close>\<close>

definition hex_digit :: "nat \<Rightarrow> char" where
  "hex_digit d = ''0123456789abcdef'' ! (d mod 16)"

text \<open>\<open>%x\<close> on a byte slice: two lower-case hex digits per byte.\<close>

definition hex_byte :: "byte \<Rightarrow> string" where
  "hex_byte b = [hex_digit (unat b div 16), hex_digit (unat b mod 16)]"

definition hex_bytes :: "bytes \<Rightarrow> string" where
  "hex_bytes bs = concat (map hex_byte bs)"

text \<open>\<open>%d\<close> on an unsigned integer, and on a signed one (\<open>big.Int.String\<close>).\<close>

function show_nat :: "nat \<Rightarrow> string" where
  "show_nat n = (if n < 10 then [hex_digit n] else show_nat (n div 10) @ [hex_digit (n mod 10)])"
  by pat_completeness auto
termination
  by (relation "measure (\<lambda>n. n)") auto

declare show_nat.simps [simp del]

definition show_int :: "int \<Rightarrow> string" where
  "show_int i = (if i < 0 then CHR ''-'' # show_nat (nat (- i)) else show_nat (nat i))"

section \<open>Errors (\<open>pkg/api/types.go\<close>, \<open>pkg/storage/block.go\<close>)\<close>

definition ErrCodeParse :: int where "ErrCodeParse = - 32700"
definition ErrCodeInvalidRequest :: int where "ErrCodeInvalidRequest = - 32600"
definition ErrCodeMethodNotFound :: int where "ErrCodeMethodNotFound = - 32601"
definition ErrCodeInvalidParams :: int where "ErrCodeInvalidParams = - 32602"
definition ErrCodeInternal :: int where "ErrCodeInternal = - 32603"
definition ErrCodeInvalidInput :: int where "ErrCodeInvalidInput = - 32001"
definition ErrCodeResourceNotFound :: int where "ErrCodeResourceNotFound = - 32002"
definition ErrCodeTransactionReject :: int where "ErrCodeTransactionReject = - 32004"
definition ErrCodeLimitExceeded :: int where "ErrCodeLimitExceeded = - 32006"

text \<open>\<open>RPCError\<close>; its \<open>Data\<close> field is never set by the code modelled here.\<close>

record RPCError =
  Code :: int
  Message :: string

text \<open>
  A Go \<open>error\<close> value: the sentinel \<open>storage.ErrNotFound\<close>, an \<open>*api.RPCError\<close>, or
  any other error, known by its text. \<open>Panic\<close> is not an error value: it stands for a
  run-time panic, which unwinds the calling goroutine instead of returning.
\<close>

datatype go_error = ErrNotFound | RPCErr RPCError | Errorf string | Panic string

fun Error_text :: "go_error \<Rightarrow> string" where
  "Error_text ErrNotFound = ''not found''"
| "Error_text (RPCErr e) = ''rpc error: code='' @ show_int (Code e) @ '', message='' @ Message e"
| "Error_text (Errorf m) = m"
| "Error_text (Panic m) = m"

section \<open>Library functions on strings (\<open>strings\<close>, \<open>strconv\<close>)\<close>

text \<open>
  \<open>strings.ToLower\<close>, \<open>strings.TrimSpace\<close> and \<open>strconv.Quote\<close> follow Unicode:
  which runes have a lower-case form, which are white space and which are printable
  is read from the library's tables, and text that is not UTF-8 is rewritten. The
  three functions are parameters of the model.
\<close>

record Strings =
  ToLower :: "string \<Rightarrow> string"
  TrimSpace :: "string \<Rightarrow> string"
  Quote :: "string \<Rightarrow> string"

text \<open>\<open>strings.HasPrefix\<close> compares bytes.\<close>

definition HasPrefix :: "string \<Rightarrow> string \<Rightarrow> bool" where
  "HasPrefix s pre = (length s \<ge> length pre \<and> take (length pre) s = pre)"

text \<open>
  \<open>strconv.ParseUint(s, base, 64)\<close> for an explicit base between 2 and 36: the digit
  switch (\<open>lower(c)\<close> is \<open>c | 0x20\<close>, so it lies between \<open>a\<close> and \<open>z\<close> exactly for
  the letters), then the two overflow tests of the loop on a 64-bit accumulator.
\<close>

datatype num_error = ErrSyntax | ErrRange

definition digit_value :: "char \<Rightarrow> nat option" where
  "digit_value c =
     (let n = (of_char c :: nat) in
      if 48 \<le> n \<and> n \<le> 57 then Some (n - 48)
      else if (65 \<le> n \<and> n \<le> 90) \<or> (97 \<le> n \<and> n \<le> 122)
        then Some ((if n \<le> 90 then n + 32 else n) - 97 + 10)
      else None)"

definition cutoff :: "nat \<Rightarrow> nat" where
  "cutoff base = (2 ^ 64 - 1) div base + 1"

fun ParseUint_loop :: "nat \<Rightarrow> nat \<Rightarrow> string \<Rightarrow> num_error + nat" where
  "ParseUint_loop base n [] = Inr n"
| "ParseUint_loop base n (c # cs) =
     (case digit_value c of
        None \<Rightarrow> Inl ErrSyntax
      | Some d \<Rightarrow>
          if d \<ge> base then Inl ErrSyntax
          else if n \<ge> cutoff base then Inl ErrRange
          else
            (let n' = (n * base) mod 2 ^ 64;
                 n1 = (n' + d) mod 2 ^ 64
             in if n1 < n' \<or> n1 > 2 ^ 64 - 1 then Inl ErrRange
                else ParseUint_loop base n1 cs))"

definition ParseUint :: "string \<Rightarrow> nat \<Rightarrow> num_error + u64" where
  "ParseUint s base =
     (if s = [] then Inl ErrSyntax
      else (case ParseUint_loop base 0 s of Inl e \<Rightarrow> Inl e | Inr n \<Rightarrow> Inr (of_nat n)))"

text \<open>
  The text of a \<open>*strconv.NumError\<close>: the function, the quoted input and the cause.
\<close>

definition NumError_text :: "'a Strings_scheme \<Rightarrow> string \<Rightarrow> num_error \<Rightarrow> string" where
  "NumError_text S s e =
     ''strconv.ParseUint: parsing '' @ Quote S s @ '': '' @
       (case e of ErrSyntax \<Rightarrow> ''invalid syntax'' | ErrRange \<Rightarrow> ''value out of range'')"

section \<open>Block tags (\<open>pkg/api/types.go\<close>)\<close>

text \<open>\<open>BlockNumber\<close> is \<open>int64\<close>: a 64-bit word read as signed.\<close>

type_synonym BlockNumber = "64 word"

definition LatestBlockNumber :: BlockNumber where "LatestBlockNumber = - 1"
definition EarliestBlockNumber :: BlockNumber where "EarliestBlockNumber = 0"
definition PendingBlockNumber :: BlockNumber where "PendingBlockNumber = - 2"

text \<open>
  \<open>ParseBlockNumber\<close>. The conversion \<open>BlockNumber(num)\<close> of the parsed \<open>uint64\<close>
  keeps the 64 bits.
\<close>

definition ParseBlockNumber :: "'a Strings_scheme \<Rightarrow> string \<Rightarrow> go_error + BlockNumber" where
  "ParseBlockNumber S input0 =
     (let input = TrimSpace S (ToLower S input0) in
      if input = ''latest'' then Inr LatestBlockNumber
      else if input = ''earliest'' then Inr EarliestBlockNumber
      else if input = ''pending'' then Inr PendingBlockNumber
      else if \<not> HasPrefix input ''0x'' then Inl (Errorf (''invalid block number: '' @ input))
      else (case ParseUint (drop 2 input) 16 of
              Inl e \<Rightarrow> Inl (Errorf (''invalid hex block number: '' @ NumError_text S (drop 2 input) e))
            | Inr num \<Rightarrow> Inr num))"

definition ToUint64 :: "BlockNumber \<Rightarrow> go_error + u64" where
  "ToUint64 bn =
     (if sint bn < 0 then Inl (Errorf (''cannot convert '' @ show_int (sint bn) @ '' to uint64''))
      else Inr bn)"

section \<open>The key-value store (\<open>pkg/storage/pika.go\<close>)\<close>

text \<open>
  What the store holds under string keys, sorted-set keys and on its channels, and for
  which keys a command currently fails in transport (\<open>unavailable\<close>, with the error's
  text). A sorted-set score is kept as the \<open>uint64\<close> the code converts to \<open>float64\<close>.
\<close>

record Pika =
  kv_strings :: "string \<rightharpoonup> bytes"
  kv_zsets :: "string \<Rightarrow> (string \<rightharpoonup> u64)"
  kv_published :: "(string \<times> string) list"
  unavailable :: "string \<rightharpoonup> string"

text \<open>\<open>PikaClient.Get\<close>: \<open>redis.Nil\<close> becomes \<open>ErrNotFound\<close>.\<close>

definition Get :: "Pika \<Rightarrow> string \<Rightarrow> go_error + bytes" where
  "Get p key =
     (case unavailable p key of
        Some m \<Rightarrow> Inl (Errorf m)
      | None \<Rightarrow> (case kv_strings p key of None \<Rightarrow> Inl ErrNotFound | Some v \<Rightarrow> Inr v))"

definition Set_key :: "Pika \<Rightarrow> string \<Rightarrow> bytes \<Rightarrow> go_error + Pika" where
  "Set_key p key v =
     (case unavailable p key of
        Some m \<Rightarrow> Inl (Errorf m)
      | None \<Rightarrow> Inr (p\<lparr>kv_strings := (kv_strings p)(key \<mapsto> v)\<rparr>))"

definition ZAdd :: "Pika \<Rightarrow> string \<Rightarrow> u64 \<Rightarrow> string \<Rightarrow> go_error + Pika" where
  "ZAdd p key score member =
     (case unavailable p key of
        Some m \<Rightarrow> Inl (Errorf m)
      | None \<Rightarrow> Inr (p\<lparr>kv_zsets := (kv_zsets p)(key := (kv_zsets p key)(member \<mapsto> score))\<rparr>))"

definition Publish :: "Pika \<Rightarrow> string \<Rightarrow> string \<Rightarrow> go_error + Pika" where
  "Publish p channel message =
     (case unavailable p channel of
        Some m \<Rightarrow> Inl (Errorf m)
      | None \<Rightarrow> Inr (p\<lparr>kv_published := kv_published p @ [(channel, message)]\<rparr>))"

text \<open>The bytes of a Go string and back (\<open>string(data)\<close>, \<open>[]byte(s)\<close>).\<close>

definition string_of_bytes :: "bytes \<Rightarrow> string" where
  "string_of_bytes bs = map (\<lambda>b. char_of (unat b)) bs"

definition bytes_of_string :: "string \<Rightarrow> bytes" where
  "bytes_of_string s = map (\<lambda>c. of_nat (of_char c)) s"

section \<open>Chain data and the decoding libraries\<close>

text \<open>
  The values of go-ethereum's \<open>core/types\<close> that the gateway reads. What the library
  derives from a decoded value is a field of it here: a transaction carries its hash
  (\<open>tx.Hash()\<close>) and the outcome of \<open>types.Sender\<close> under
  \<open>LatestSignerForChainID(tx.ChainId())\<close>, a header carries its hash. The getters that
  return \<open>*big.Int\<close> are options, since the source tests them for nil.
\<close>

record Transaction =
  tx_Nonce :: u64
  tx_Gas :: u64
  tx_GasPrice :: "int option"
  tx_GasFeeCap :: "int option"
  tx_Value :: int
  tx_ChainId :: "int option"
  tx_Hash :: Hash
  tx_Sender :: "string + Address"

record Header =
  hdr_Number :: u64
  hdr_Hash :: Hash

record Body =
  body_Transactions :: "Transaction list"
  body_Uncles :: "Header list"

text \<open>\<open>types.Log\<close>, of which the gateway's filter reads the address and the topics.\<close>

record Log =
  log_Address :: Address
  log_Topics :: "Hash list"

record Receipt =
  rc_Status :: u64
  rc_GasUsed :: u64
  rc_Logs :: "Log list"

text \<open>\<open>storage.AccountState\<close> and \<open>storage.TxLookup\<close>, the two JSON documents of the store.\<close>

record AccountState =
  acc_Nonce :: u64
  acc_Balance :: "int option"
  acc_CodeHash :: string

record TxLookup =
  lk_BlockNumber :: u64
  lk_BlockHash :: string
  lk_Index :: u64

text \<open>
  The codecs are library code (\<open>rlp\<close>, \<open>encoding/json\<close>, \<open>common\<close>) and are taken as
  parameters: each decoder returns the decoded value or the text of its error.
  \<open>Address_Hex\<close> is the checksummed \<open>Address.Hex()\<close>. The record extends that of the
  string functions, so that one value stands for the libraries behind the readers and
  the API.
\<close>

record Codec = Strings +
  rlp_Transaction :: "bytes \<Rightarrow> string + Transaction"
  rlp_Header :: "bytes \<Rightarrow> string + Header"
  rlp_Body :: "bytes \<Rightarrow> string + Body"
  rlp_Receipts :: "bytes \<Rightarrow> string + Receipt list"
  rlp_Encode :: "Transaction \<Rightarrow> string + bytes"
  json_AccountState :: "bytes \<Rightarrow> string + AccountState"
  json_TxLookup :: "bytes \<Rightarrow> string + TxLookup"
  Address_Hex :: "Address \<Rightarrow> string"
  HexToHash :: "string \<Rightarrow> Hash"

text \<open>\<open>Hash.Hex()\<close>: \<open>0x\<close> and the lower-case hex digits.\<close>

definition Hash_Hex :: "Hash \<Rightarrow> string" where
  "Hash_Hex h = ''0x'' @ hex_bytes h"

section \<open>Block reader (\<open>pkg/storage/block.go\<close>)\<close>

definition GetLatestBlockNumber :: "'a Strings_scheme \<Rightarrow> Pika \<Rightarrow> go_error + u64" where
  "GetLatestBlockNumber S p =
     (case Get p ''idx:latest'' of
        Inl err \<Rightarrow> Inl err
      | Inr data \<Rightarrow>
          (case ParseUint (string_of_bytes data) 10 of
             Inl e \<Rightarrow> Inl (Errorf (NumError_text S (string_of_bytes data) e))
           | Inr n \<Rightarrow> Inr n))"

definition GetHeader :: "Codec \<Rightarrow> Pika \<Rightarrow> u64 \<Rightarrow> go_error + Header" where
  "GetHeader C p number =
     (case Get p (''blk:hdr:'' @ show_nat (unat number)) of
        Inl err \<Rightarrow> Inl err
      | Inr data \<Rightarrow>
          (case rlp_Header C data of
             Inl e \<Rightarrow> Inl (Errorf (''failed to decode header: '' @ e))
           | Inr header \<Rightarrow> Inr header))"

definition GetBlockBody :: "Codec \<Rightarrow> Pika \<Rightarrow> u64 \<Rightarrow> go_error + Body" where
  "GetBlockBody C p number =
     (case Get p (''blk:body:'' @ show_nat (unat number)) of
        Inl err \<Rightarrow> Inl err
      | Inr data \<Rightarrow>
          (case rlp_Body C data of
             Inl e \<Rightarrow> Inl (Errorf (''failed to decode body: '' @ e))
           | Inr body \<Rightarrow> Inr body))"

text \<open>
  \<open>GetBlock\<close>: the block is the header with the body's transactions and uncles.
\<close>

definition GetBlock :: "Codec \<Rightarrow> Pika \<Rightarrow> u64 \<Rightarrow> go_error + (Header \<times> Body)" where
  "GetBlock C p number =
     (case GetHeader C p number of
        Inl err \<Rightarrow> Inl err
      | Inr header \<Rightarrow>
          (case GetBlockBody C p number of
             Inl err \<Rightarrow> Inl err
           | Inr body \<Rightarrow> Inr (header, body)))"

section \<open>Transaction reader (\<open>pkg/storage/transaction.go\<close>)\<close>

definition GetTransaction :: "Codec \<Rightarrow> Pika \<Rightarrow> Hash \<Rightarrow> go_error + Transaction" where
  "GetTransaction C p hash =
     (case Get p (''tx:'' @ Hash_Hex hash) of
        Inl err \<Rightarrow> Inl err
      | Inr data \<Rightarrow>
          (case rlp_Transaction C data of
             Inl e \<Rightarrow> Inl (Errorf (''failed to decode transaction: '' @ e))
           | Inr tx \<Rightarrow> Inr tx))"

definition GetTransactionLookup :: "Codec \<Rightarrow> Pika \<Rightarrow> Hash \<Rightarrow> go_error + TxLookup" where
  "GetTransactionLookup C p hash =
     (case Get p (''tx:lookup:'' @ Hash_Hex hash) of
        Inl err \<Rightarrow> Inl err
      | Inr data \<Rightarrow>
          (case json_TxLookup C data of
             Inl e \<Rightarrow> Inl (Errorf (''failed to decode lookup: '' @ e))
           | Inr lookup \<Rightarrow> Inr lookup))"

definition GetReceipt :: "Codec \<Rightarrow> Pika \<Rightarrow> Hash \<Rightarrow> go_error + (Receipt \<times> TxLookup)" where
  "GetReceipt C p hash =
     (case GetTransactionLookup C p hash of
        Inl err \<Rightarrow> Inl err
      | Inr lookup \<Rightarrow>
          (case Get p (''blk:rcpt:'' @ show_nat (unat (lk_BlockNumber lookup))) of
             Inl err \<Rightarrow> Inl err
           | Inr receiptsData \<Rightarrow>
               (case rlp_Receipts C receiptsData of
                  Inl e \<Rightarrow> Inl (Errorf (''failed to decode receipts: '' @ e))
                | Inr receipts \<Rightarrow>
                    if unat (lk_Index lookup) \<ge> length receipts then Inl ErrNotFound
                    else Inr (receipts ! unat (lk_Index lookup), lookup))))"

definition reader_GetTransactionByBlockNumberAndIndex ::
  "Codec \<Rightarrow> Pika \<Rightarrow> u64 \<Rightarrow> u64 \<Rightarrow> go_error + Transaction" where
  "reader_GetTransactionByBlockNumberAndIndex C p blockNumber index =
     (case Get p (''blk:body:'' @ show_nat (unat blockNumber)) of
        Inl err \<Rightarrow> Inl err
      | Inr bodyData \<Rightarrow>
          (case rlp_Body C bodyData of
             Inl e \<Rightarrow> Inl (Errorf (''failed to decode body: '' @ e))
           | Inr body \<Rightarrow>
               if unat index \<ge> length (body_Transactions body) then Inl ErrNotFound
               else Inr (body_Transactions body ! unat index)))"

section \<open>Block API (\<open>pkg/api/eth\<close>, block file)\<close>

definition resolveBlockNumber :: "'a Strings_scheme \<Rightarrow> Pika \<Rightarrow> BlockNumber \<Rightarrow> go_error + u64" where
  "resolveBlockNumber S p blockNr =
     (if blockNr = LatestBlockNumber \<or> blockNr = PendingBlockNumber then GetLatestBlockNumber S p
      else if blockNr = EarliestBlockNumber then Inr 0
      else ToUint64 blockNr)"

text \<open>
  The RPC results. \<open>NewRPCTransaction\<close> fills the three position fields only for a
  block hash other than the zero hash; \<open>NewRPCBlock\<close> and \<open>NewRPCReceipt\<close> project
  fields of their arguments, which are kept whole here. A nil result pointer, JSON
  \<open>null\<close>, is \<open>None\<close>.
\<close>

record RPCTransaction =
  rpc_tx :: Transaction
  rpc_BlockHash :: "Hash option"
  rpc_BlockNumber :: "int option"
  rpc_TransactionIndex :: "u64 option"

definition NewRPCTransaction :: "Transaction \<Rightarrow> Hash \<Rightarrow> u64 \<Rightarrow> u64 \<Rightarrow> RPCTransaction" where
  "NewRPCTransaction tx blockHash blockNumber index =
     (if blockHash \<noteq> replicate 32 0
      then \<lparr>rpc_tx = tx, rpc_BlockHash = Some blockHash, rpc_BlockNumber = Some (sint blockNumber),
            rpc_TransactionIndex = Some index\<rparr>
      else \<lparr>rpc_tx = tx, rpc_BlockHash = None, rpc_BlockNumber = None, rpc_TransactionIndex = None\<rparr>)"

definition NewRPCPendingTransaction :: "Transaction \<Rightarrow> RPCTransaction" where
  "NewRPCPendingTransaction tx = NewRPCTransaction tx (replicate 32 0) 0 0"

record RPCBlock =
  rb_Header :: Header
  rb_Body :: Body
  rb_fullTx :: bool

record RPCReceipt =
  rr_Receipt :: Receipt
  rr_tx :: Transaction
  rr_BlockHash :: Hash
  rr_BlockNumber :: int
  rr_Index :: u64

definition GetBlockByNumber ::
  "Codec \<Rightarrow> Pika \<Rightarrow> string \<Rightarrow> bool \<Rightarrow> go_error + RPCBlock option" where
  "GetBlockByNumber C p blockNr fullTx =
     (case ParseBlockNumber C blockNr of
        Inl err \<Rightarrow>
          Inl (RPCErr \<lparr>Code = ErrCodeInvalidParams,
                       Message = ''invalid block number: '' @ Error_text err\<rparr>)
      | Inr bn \<Rightarrow>
          (case resolveBlockNumber C p bn of
             Inl err \<Rightarrow> Inl err
           | Inr number \<Rightarrow>
               (case GetBlock C p number of
                  Inl err \<Rightarrow>
                    if err = ErrNotFound then Inr None
                    else Inl (RPCErr \<lparr>Code = ErrCodeInternal,
                                      Message = ''failed to get block: '' @ Error_text err\<rparr>)
                | Inr (header, body) \<Rightarrow>
                    Inr (Some \<lparr>rb_Header = header, rb_Body = body, rb_fullTx = fullTx\<rparr>))))"

section \<open>Transaction API (\<open>pkg/api/eth\<close>, transaction file)\<close>

text \<open>\<open>TransactionAPI.resolveBlockNumber\<close> has the body of the block API's.\<close>

definition GetTransactionByHash ::
  "Codec \<Rightarrow> Pika \<Rightarrow> Hash \<Rightarrow> go_error + RPCTransaction option" where
  "GetTransactionByHash C p txHash =
     (case GetTransaction C p txHash of
        Inl err \<Rightarrow>
          if err = ErrNotFound then Inr None
          else Inl (RPCErr \<lparr>Code = ErrCodeInternal,
                            Message = ''failed to get transaction: '' @ Error_text err\<rparr>)
      | Inr tx \<Rightarrow>
          (case GetTransactionLookup C p txHash of
             Inl err \<Rightarrow>
               if err = ErrNotFound then Inr (Some (NewRPCPendingTransaction tx))
               else Inl (RPCErr \<lparr>Code = ErrCodeInternal,
                                 Message = ''failed to get transaction lookup: '' @ Error_text err\<rparr>)
           | Inr lookup \<Rightarrow>
               Inr (Some (NewRPCTransaction tx (HexToHash C (lk_BlockHash lookup))
                            (lk_BlockNumber lookup) (lk_Index lookup)))))"

definition GetTransactionByBlockNumberAndIndex ::
  "Codec \<Rightarrow> Pika \<Rightarrow> string \<Rightarrow> u64 \<Rightarrow> go_error + RPCTransaction option" where
  "GetTransactionByBlockNumberAndIndex C p blockNr index =
     (case ParseBlockNumber C blockNr of
        Inl err \<Rightarrow>
          Inl (RPCErr \<lparr>Code = ErrCodeInvalidParams,
                       Message = ''invalid block number: '' @ Error_text err\<rparr>)
      | Inr bn \<Rightarrow>
          (case resolveBlockNumber C p bn of
             Inl err \<Rightarrow> Inl err
           | Inr number \<Rightarrow>
               (case reader_GetTransactionByBlockNumberAndIndex C p number index of
                  Inl err \<Rightarrow>
                    if err = ErrNotFound then Inr None
                    else Inl (RPCErr \<lparr>Code = ErrCodeInternal,
                                      Message = ''failed to get transaction: '' @ Error_text err\<rparr>)
                | Inr tx \<Rightarrow>
                    (case GetHeader C p number of
                       Inl err \<Rightarrow>
                         Inl (RPCErr \<lparr>Code = ErrCodeInternal,
                                      Message = ''failed to get block header: '' @ Error_text err\<rparr>)
                     | Inr header \<Rightarrow>
                         Inr (Some (NewRPCTransaction tx (hdr_Hash header) number index))))))"

definition GetTransactionReceipt ::
  "Codec \<Rightarrow> Pika \<Rightarrow> Hash \<Rightarrow> go_error + RPCReceipt option" where
  "GetTransactionReceipt C p txHash =
     (case GetReceipt C p txHash of
        Inl err \<Rightarrow>
          if err = ErrNotFound then Inr None
          else Inl (RPCErr \<lparr>Code = ErrCodeInternal,
                            Message = ''failed to get receipt: '' @ Error_text err\<rparr>)
      | Inr (receipt, lookup) \<Rightarrow>
          (case GetTransaction C p txHash of
             Inl err \<Rightarrow>
               Inl (RPCErr \<lparr>Code = ErrCodeInternal,
                            Message = ''failed to get transaction: '' @ Error_text err\<rparr>)
           | Inr tx \<Rightarrow>
               Inr (Some \<lparr>rr_Receipt = receipt, rr_tx = tx,
                           rr_BlockHash = HexToHash C (lk_BlockHash lookup),
                           rr_BlockNumber = sint (lk_BlockNumber lookup),
                           rr_Index = lk_Index lookup\<rparr>)))"

section \<open>State reader (\<open>pkg/storage\<close>, state file)\<close>

definition account_key :: "Codec \<Rightarrow> Address \<Rightarrow> string \<Rightarrow> string" where
  "account_key C address blockNumber =
     (if blockNumber = ''latest'' \<or> blockNumber = ''pending''
      then ''st:latest:acc:'' @ Address_Hex C address
      else ''st:'' @ blockNumber @ '':acc:'' @ Address_Hex C address)"

definition GetBalance :: "Codec \<Rightarrow> Pika \<Rightarrow> Address \<Rightarrow> string \<Rightarrow> go_error + int" where
  "GetBalance C p address blockNumber =
     (case Get p (account_key C address blockNumber) of
        Inl err \<Rightarrow> if err = ErrNotFound then Inr 0 else Inl err
      | Inr data \<Rightarrow>
          (case json_AccountState C data of
             Inl e \<Rightarrow> Inl (Errorf (''failed to decode account state: '' @ e))
           | Inr state \<Rightarrow> (case acc_Balance state of None \<Rightarrow> Inr 0 | Some b \<Rightarrow> Inr b)))"

definition GetNonce :: "Codec \<Rightarrow> Pika \<Rightarrow> Address \<Rightarrow> string \<Rightarrow> go_error + u64" where
  "GetNonce C p address blockNumber =
     (case Get p (account_key C address blockNumber) of
        Inl err \<Rightarrow> if err = ErrNotFound then Inr 0 else Inl err
      | Inr data \<Rightarrow>
          (case json_AccountState C data of
             Inl e \<Rightarrow> Inl (Errorf (''failed to decode account state: '' @ e))
           | Inr state \<Rightarrow> Inr (acc_Nonce state)))"

definition storage_key :: "Codec \<Rightarrow> Address \<Rightarrow> Hash \<Rightarrow> string \<Rightarrow> string" where
  "storage_key C address key blockNumber =
     (if blockNumber = ''latest'' \<or> blockNumber = ''pending''
      then ''st:latest:stor:'' @ Address_Hex C address @ '':'' @ Hash_Hex key
      else ''st:'' @ blockNumber @ '':stor:'' @ Address_Hex C address @ '':'' @ Hash_Hex key)"

definition reader_GetStorageAt ::
  "Codec \<Rightarrow> Pika \<Rightarrow> Address \<Rightarrow> Hash \<Rightarrow> string \<Rightarrow> go_error + bytes" where
  "reader_GetStorageAt C p address key blockNumber =
     (case Get p (storage_key C address key blockNumber) of
        Inl err \<Rightarrow> if err = ErrNotFound then Inr (replicate 32 0) else Inl err
      | Inr v \<Rightarrow> Inr v)"

section \<open>State API (\<open>pkg/api/eth\<close>, state file)\<close>

definition state_resolveBlockNumber :: "BlockNumber \<Rightarrow> go_error + string" where
  "state_resolveBlockNumber blockNr =
     (if blockNr = LatestBlockNumber then Inr ''latest''
      else if blockNr = PendingBlockNumber then Inr ''pending''
      else if blockNr = EarliestBlockNumber then Inr ''0''
      else (case ToUint64 blockNr of
              Inl err \<Rightarrow> Inl err
            | Inr num \<Rightarrow> Inr (show_nat (unat num))))"

text \<open>
  \<open>GetStorageAt\<close>. The last step is \<open>result := make([]byte, 32)\<close> and
  \<open>copy(result[32-len(value):], value)\<close>: for a value longer than 32 bytes the slice
  expression has a negative bound and the run time panics; otherwise the value is
  copied to the right end of the zeroed result.
\<close>

definition GetStorageAt ::
  "Codec \<Rightarrow> Pika \<Rightarrow> Address \<Rightarrow> Hash \<Rightarrow> string \<Rightarrow> go_error + bytes" where
  "GetStorageAt C p address key blockNr =
     (case ParseBlockNumber C blockNr of
        Inl err \<Rightarrow>
          Inl (RPCErr \<lparr>Code = ErrCodeInvalidParams,
                       Message = ''invalid block number: '' @ Error_text err\<rparr>)
      | Inr bn \<Rightarrow>
          (case state_resolveBlockNumber bn of
             Inl err \<Rightarrow> Inl err
           | Inr blockNumStr \<Rightarrow>
               (case reader_GetStorageAt C p address key blockNumStr of
                  Inl err \<Rightarrow>
                    Inl (RPCErr \<lparr>Code = ErrCodeInternal,
                                 Message = ''failed to get storage: '' @ Error_text err\<rparr>)
                | Inr v \<Rightarrow>
                    if length v > 32 then Inl (Panic ''runtime error: slice bounds out of range'')
                    else Inr (replicate (32 - length v) 0 @ v))))"

section \<open>Gas API (\<open>pkg/api/eth\<close>, gas file)\<close>

text \<open>
  \<open>FeeHistoryResult\<close>; the gas-used ratios are the constant 0.5. The percentiles are
  read for their number only.
\<close>

record FeeHistoryResult =
  OldestBlock :: int
  BaseFeePerGas :: "int list"
  GasUsedRatio :: "rat list"
  Reward :: "int list list"

definition FeeHistory ::
  "'a Strings_scheme \<Rightarrow> Pika \<Rightarrow> u64 \<Rightarrow> string \<Rightarrow> 'f list \<Rightarrow> go_error + FeeHistoryResult" where
  "FeeHistory S p blockCount lastBlock rewardPercentiles =
     (case ParseBlockNumber S lastBlock of
        Inl err \<Rightarrow>
          Inl (RPCErr \<lparr>Code = ErrCodeInvalidParams,
                       Message = ''invalid block number: '' @ Error_text err\<rparr>)
      | Inr bn \<Rightarrow>
          (case (if bn = LatestBlockNumber \<or> bn = PendingBlockNumber then
                   (case GetLatestBlockNumber S p of
                      Inl err \<Rightarrow>
                        Inl (RPCErr \<lparr>Code = ErrCodeInternal,
                                     Message = ''failed to get latest block: '' @ Error_text err\<rparr>)
                    | Inr e \<Rightarrow> Inr e)
                 else if bn = EarliestBlockNumber then Inr 0
                 else
                   (case ToUint64 bn of
                      Inl err \<Rightarrow>
                        Inl (RPCErr \<lparr>Code = ErrCodeInvalidParams,
                                     Message = ''invalid block number: '' @ Error_text err\<rparr>)
                    | Inr e \<Rightarrow> Inr e)) of
             Inl err \<Rightarrow> Inl err
           | Inr endBlock \<Rightarrow>
               (let count1 = (if blockCount = 0 then 1 else blockCount) in
                if count1 > 1024 then
                  Inl (RPCErr \<lparr>Code = ErrCodeInvalidParams,
                               Message = ''block count too large (max 1024)''\<rparr>)
                else
                  (let startBlock = (if endBlock \<ge> count1 - 1 then endBlock - count1 + 1 else 0);
                       count = (if endBlock \<ge> count1 - 1 then count1 else endBlock + 1)
                   in Inr \<lparr>OldestBlock = sint startBlock,
                            BaseFeePerGas = replicate (unat (count + 1)) 5000000000,
                            GasUsedRatio = replicate (unat count) (1 / 2),
                            Reward =
                              (if length rewardPercentiles > 0
                               then replicate (unat count)
                                      (replicate (length rewardPercentiles) 1000000000)
                               else [])\<rparr>))))"

section \<open>Pool store (\<open>pkg/storage/txpool.go\<close>)\<close>

text \<open>\<open>big.Int.Uint64\<close>: the low 64 bits of the absolute value.\<close>

definition big_Uint64 :: "int \<Rightarrow> u64" where
  "big_Uint64 x = of_nat (nat \<bar>x\<bar>)"

text \<open>
  \<open>AddPendingTx\<close> returns its error, if any, and the store as the writes made so far
  leave it. With both price getters nil the call \<open>gasPrice.Uint64()\<close> dereferences
  nil.
\<close>

definition AddPendingTx :: "Codec \<Rightarrow> Pika \<Rightarrow> Transaction \<Rightarrow> string \<Rightarrow> go_error option \<times> Pika" where
  "AddPendingTx C p tx source =
     (let txHash = tx_Hash tx in
      case rlp_Encode C tx of
        Inl e \<Rightarrow> (Some (Errorf (''failed to encode transaction: '' @ e)), p)
      | Inr data \<Rightarrow>
          (case Set_key p (''pool:pending:'' @ Hash_Hex txHash) data of
             Inl err \<Rightarrow> (Some err, p)
           | Inr p1 \<Rightarrow>
               (case tx_Sender tx of
                  Inl e \<Rightarrow> (Some (Errorf (''failed to get sender: '' @ e)), p1)
                | Inr from \<Rightarrow>
                    (case ZAdd p1 (''pool:addr:'' @ Address_Hex C from) (tx_Nonce tx) (Hash_Hex txHash) of
                       Inl err \<Rightarrow> (Some err, p1)
                     | Inr p2 \<Rightarrow>
                         (case (case tx_GasPrice tx of Some g \<Rightarrow> Some g | None \<Rightarrow> tx_GasFeeCap tx) of
                            None \<Rightarrow> (Some (Panic ''invalid memory address or nil pointer dereference''), p2)
                          | Some gasPrice \<Rightarrow>
                              (case ZAdd p2 ''pool:byprice'' (big_Uint64 gasPrice) (Hash_Hex txHash) of
                                 Inl err \<Rightarrow> (Some err, p2)
                               | Inr p3 \<Rightarrow>
                                   (case Publish p3 ''pool:new'' (Hash_Hex txHash) of
                                      Inl err \<Rightarrow> (Some err, p3)
                                    | Inr p4 \<Rightarrow> (None, p4))))))))"

section \<open>Admission (\<open>pkg/api/eth\<close>, pool file)\<close>

text \<open>
  \<open>SendRawTransaction\<close> returns the hash or the error, and the store as it leaves
  it. \<open>big.NewInt(int64(tx.Gas()))\<close> reads the gas limit as a signed 64-bit number.
  A panic inside \<open>AddPendingTx\<close> is not an error value and passes through.
\<close>

definition SendRawTransaction ::
  "Codec \<Rightarrow> u64 \<Rightarrow> Pika \<Rightarrow> bytes \<Rightarrow> (go_error + Hash) \<times> Pika" where
  "SendRawTransaction C chainID p input =
     (case rlp_Transaction C input of
        Inl e \<Rightarrow>
          (Inl (RPCErr \<lparr>Code = ErrCodeInvalidInput, Message = ''invalid transaction: '' @ e\<rparr>), p)
      | Inr tx \<Rightarrow>
          (case tx_Sender tx of
             Inl e \<Rightarrow>
               (Inl (RPCErr \<lparr>Code = ErrCodeInvalidInput, Message = ''invalid signature: '' @ e\<rparr>), p)
           | Inr from \<Rightarrow>
               if (case tx_ChainId tx of None \<Rightarrow> False | Some c \<Rightarrow> big_Uint64 c \<noteq> chainID) then
                 (Inl (RPCErr \<lparr>Code = ErrCodeInvalidInput,
                     Message = ''invalid chain id: got '' @
                       show_nat (unat (big_Uint64 (case tx_ChainId tx of None \<Rightarrow> 0 | Some c \<Rightarrow> c))) @
                       '', expected '' @ show_nat (unat chainID)\<rparr>), p)
               else
                 (case GetNonce C p from ''latest'' of
                    Inl err \<Rightarrow>
                      (Inl (RPCErr \<lparr>Code = ErrCodeInternal,
                          Message = ''failed to get nonce: '' @ Error_text err\<rparr>), p)
                  | Inr currentNonce \<Rightarrow>
                      if tx_Nonce tx < currentNonce then
                        (Inl (RPCErr \<lparr>Code = ErrCodeTransactionReject,
                            Message = ''nonce too low: got '' @ show_nat (unat (tx_Nonce tx)) @
                              '', expected >= '' @ show_nat (unat currentNonce)\<rparr>), p)
                      else
                        (case GetBalance C p from ''latest'' of
                           Inl err \<Rightarrow>
                             (Inl (RPCErr \<lparr>Code = ErrCodeInternal,
                                 Message = ''failed to get balance: '' @ Error_text err\<rparr>), p)
                         | Inr balance \<Rightarrow>
                             (let gasPrice =
                                    (case tx_GasPrice tx of
                                       Some g \<Rightarrow> g
                                     | None \<Rightarrow> (case tx_GasFeeCap tx of Some g \<Rightarrow> g | None \<Rightarrow> 0));
                                  gasCost = gasPrice * sint (tx_Gas tx);
                                  totalCost = tx_Value tx + gasCost
                              in
                                if balance < totalCost then
                                  (Inl (RPCErr \<lparr>Code = ErrCodeTransactionReject,
                                      Message = ''insufficient funds: balance='' @ show_int balance @
                                        '', required='' @ show_int totalCost\<rparr>), p)
                                else if tx_Gas tx < 21000 then
                                  (Inl (RPCErr \<lparr>Code = ErrCodeInvalidInput,
                                      Message = ''gas limit too low: got '' @
                                        show_nat (unat (tx_Gas tx)) @ '', minimum 21000''\<rparr>), p)
                                else
                                  (case AddPendingTx C p tx ''rpc'' of
                                     (Some (Panic m), p') \<Rightarrow> (Inl (Panic m), p')
                                   | (Some err, p') \<Rightarrow>
                                       (Inl (RPCErr \<lparr>Code = ErrCodeInternal,
                                           Message = ''failed to add transaction: '' @ Error_text err\<rparr>), p')
                                   | (None, p') \<Rightarrow> (Inr (tx_Hash tx), p')))))))"

section \<open>Rate limiter (\<open>pkg/middleware/ratelimit.go\<close>)\<close>

text \<open>
  The token bucket is \<open>golang.org/x/time/rate\<close>, library code that reads the wall
  clock: it is a parameter. \<open>'b\<close> is whatever a \<open>*rate.Limiter\<close> keeps (its clock
  readings included), \<open>NewLimiter\<close> makes one from a rate and a burst, and
  \<open>Limiter_Allow\<close> answers one request and gives the bucket as it leaves it.
\<close>

record 'b RateLib =
  NewLimiter :: "int \<Rightarrow> int \<Rightarrow> 'b"
  Limiter_Allow :: "'b \<Rightarrow> bool \<times> 'b"

text \<open>
  \<open>ipLimiters\<close> is the \<open>sync.Map\<close>, which holds the per-peer buckets under the
  peer's address and the per-method buckets under \<open>method:\<close> and the method's name.
\<close>

record 'b RateLimiter =
  rl_global :: "'b option"
  ipLimiters :: "string \<rightharpoonup> 'b"
  methodLimits :: "string \<rightharpoonup> int"
  ipRate :: int
  ipBurst :: int
  enabled :: bool

text \<open>\<open>getIPLimiter\<close>: the peer's bucket, made and stored on first use.\<close>

definition getIPLimiter :: "'b RateLib \<Rightarrow> 'b RateLimiter \<Rightarrow> string \<Rightarrow> 'b option \<times> 'b RateLimiter" where
  "getIPLimiter L rl ip =
     (if ipRate rl \<le> 0 then (None, rl)
      else (case ipLimiters rl ip of
              Some limiter \<Rightarrow> (Some limiter, rl)
            | None \<Rightarrow>
                (let limiter = NewLimiter L (ipRate rl) (ipBurst rl)
                 in (Some limiter, rl\<lparr>ipLimiters := (ipLimiters rl)(ip \<mapsto> limiter)\<rparr>))))"

text \<open>
  The three scopes of \<open>Allow\<close>, each giving its verdict and the limiter as the scope
  leaves it. A \<open>*rate.Limiter\<close> is shared through its pointer, so the bucket as
  \<open>Limiter_Allow\<close> leaves it is written back where the pointer lives.
\<close>

definition allow_global :: "'b RateLib \<Rightarrow> 'b RateLimiter \<Rightarrow> bool \<times> 'b RateLimiter" where
  "allow_global L rl =
     (case rl_global rl of
        None \<Rightarrow> (True, rl)
      | Some g \<Rightarrow> (let (ok, g') = Limiter_Allow L g in (ok, rl\<lparr>rl_global := Some g'\<rparr>)))"

definition allow_ip :: "'b RateLib \<Rightarrow> 'b RateLimiter \<Rightarrow> string \<Rightarrow> bool \<times> 'b RateLimiter" where
  "allow_ip L rl ip =
     (let (ipLimiter, rl2) = getIPLimiter L rl ip in
      case ipLimiter of
        None \<Rightarrow> (True, rl2)
      | Some b \<Rightarrow>
          (let (ok, b') = Limiter_Allow L b
           in (ok, rl2\<lparr>ipLimiters := (ipLimiters rl2)(ip \<mapsto> b')\<rparr>)))"

definition allow_method :: "'b RateLib \<Rightarrow> 'b RateLimiter \<Rightarrow> string \<Rightarrow> bool \<times> 'b RateLimiter" where
  "allow_method L rl meth =
     (case methodLimits rl meth of
        None \<Rightarrow> (True, rl)
      | Some methodRate \<Rightarrow>
          if \<not> methodRate > 0 then (True, rl)
          else
            (let key = ''method:'' @ meth;
                 limiter =
                   (case ipLimiters rl key of
                      Some b \<Rightarrow> b
                    | None \<Rightarrow> NewLimiter L methodRate methodRate);
                 (ok, b') = Limiter_Allow L limiter
             in (ok, rl\<lparr>ipLimiters := (ipLimiters rl)(key \<mapsto> b')\<rparr>)))"

definition Allow ::
  "'b RateLib \<Rightarrow> 'b RateLimiter \<Rightarrow> string \<Rightarrow> string \<Rightarrow> (bool \<times> string) \<times> 'b RateLimiter" where
  "Allow L rl ip meth =
     (if \<not> enabled rl then ((True, []), rl)
      else
        (let (gok, rl1) = allow_global L rl in
         if \<not> gok then ((False, ''global''), rl1)
         else
           (let (iok, rl3) = allow_ip L rl1 ip in
            if \<not> iok then ((False, ''ip''), rl3)
            else
              (let (mok, rl4) = allow_method L rl3 meth in
               if \<not> mok then ((False, ''method''), rl4)
               else ((True, []), rl4)))))"

text \<open>
  A bucket for examples: a number of tokens that is never refilled.
\<close>

definition counting_bucket :: "nat RateLib" where
  "counting_bucket =
     \<lparr>NewLimiter = (\<lambda>r b. nat b),
      Limiter_Allow = (\<lambda>n. if n > 0 then (True, n - 1) else (False, n))\<rparr>"

section \<open>RPC dispatcher (\<open>pkg/server\<close>, handler file)\<close>

text \<open>
  A JSON document as its text gives it: the members of an object in their order, a
  number as its literal.
\<close>

datatype json =
  JNull | JBool bool | JNumber string | JString string | JArray "json list"
  | JObject "(string \<times> json) list"

text \<open>
  \<open>encoding/json\<close> is library code, and three things it does are parameters.
  \<open>json_Document\<close> is the document of a body, \<open>None\<close> for a body that is not JSON.
  \<open>json_Interface\<close> is the value that \<open>json.Unmarshal\<close> builds in an \<open>interface{}\<close>,
  where a number becomes a \<open>float64\<close> and an object a map, written as the document
  that \<open>json.Marshal\<close> makes of that value; it is \<open>None\<close> when the document holds a
  number beyond the range of \<open>float64\<close>, which is an \<open>UnmarshalTypeError\<close>.
  \<open>json_equalFold\<close> tells whether the name of a member that is not equal to the name
  of a field still matches it, by the library's case folding.
\<close>

record Json =
  json_Document :: "bytes \<Rightarrow> json option"
  json_Interface :: "json \<Rightarrow> json option"
  json_equalFold :: "string \<Rightarrow> string \<Rightarrow> bool"

text \<open>
  \<open>ID\<close> is an \<open>interface{}\<close> (nil is \<open>JNull\<close>) and \<open>Params\<close> a \<open>json.RawMessage\<close>
  (nil, when the member is absent, is \<open>None\<close>).
\<close>

record JSONRPCRequest =
  req_JSONRPC :: string
  req_ID :: json
  req_Method :: string
  req_Params :: "json option"

record JSONRPCResponse =
  resp_JSONRPC :: string
  resp_ID :: json
  resp_Result :: "json option"
  resp_Error :: "RPCError option"

subsection \<open>Registered methods and the reflective call\<close>

text \<open>
  A Go value that crosses the reflective call is written as a JSON document: an
  argument as the library reads it at the argument's type, a result as the response
  carries it; a nil result is \<open>None\<close>. A type of \<open>argTypes\<close> is known by its zero value
  and by \<open>json.Unmarshal\<close> at that type, which gives the value or the text of its
  error.
\<close>

record argType =
  arg_Zero :: json
  arg_Unmarshal :: "json \<Rightarrow> string + json"

text \<open>
  \<open>reflect.Kind\<close>, for the kinds of the first results of the API's methods, with
  \<open>Kind.String()\<close>. \<open>Value.IsNil\<close> is defined for the kinds that have a nil and
  panics with a \<open>*reflect.ValueError\<close> for the others.
\<close>

datatype Kind = Bool | Uint64 | String | Array | Struct | Interface | Map | Pointer | Slice

fun Kind_String :: "Kind \<Rightarrow> string" where
  "Kind_String Bool = ''bool''"
| "Kind_String Uint64 = ''uint64''"
| "Kind_String String = ''string''"
| "Kind_String Array = ''array''"
| "Kind_String Struct = ''struct''"
| "Kind_String Interface = ''interface''"
| "Kind_String Map = ''map''"
| "Kind_String Pointer = ''ptr''"
| "Kind_String Slice = ''slice''"

definition has_nil :: "Kind \<Rightarrow> bool" where
  "has_nil k = (k = Interface \<or> k = Map \<or> k = Pointer \<or> k = Slice)"

definition IsNil_panic :: "Kind \<Rightarrow> go_error" where
  "IsNil_panic k = Panic (''reflect: call of reflect.Value.IsNil on '' @ Kind_String k @ '' Value'')"

text \<open>
  What \<open>RegisterService\<close> keeps of a method. \<open>argTypes\<close> holds the types of the
  parameters after the \<open>context.Context\<close>, which is always the first and is not read
  from the request; so the source's test \<open>len(handler.argTypes) > 1\<close> is \<open>argTypes \<noteq> []\<close>
  here and its index \<open>i\<close> runs from 1 as in the source. \<open>out_Kind\<close> is the kind of the
  method's first result type. \<open>method_Func\<close> is the method on its receiver: from the
  arguments to the result or the error, \<open>Inl (Panic m)\<close> when the method panics. The
  second result has the interface type \<open>error\<close> in every method of the API, for which
  \<open>IsNil\<close> is defined.
\<close>

record methodHandler =
  argTypes :: "argType list"
  out_Kind :: Kind
  method_Func :: "json list \<Rightarrow> go_error + json option"

text \<open>
  The parameter list of \<open>executeMethod\<close>: \<open>json.Unmarshal\<close> of the params into a
  \<open>[]json.RawMessage\<close> gives the elements of an array and the nil slice for \<open>null\<close>; it
  fails on anything else, also on absent params, and then the list is the params alone.
\<close>

definition param_list :: "json option \<Rightarrow> json option list" where
  "param_list params =
     (case params of
        Some (JArray xs) \<Rightarrow> map Some xs
      | Some JNull \<Rightarrow> []
      | _ \<Rightarrow> [params])"

text \<open>
  The loop over the argument types: the argument at position \<open>i\<close> is read from the
  parameter \<open>i - 1\<close> if there is one and is the zero value otherwise. \<open>json.Unmarshal\<close> of
  an empty raw message fails with \<open>unexpected end of JSON input\<close>.
\<close>

fun bind_args :: "argType list \<Rightarrow> json option list \<Rightarrow> nat \<Rightarrow> go_error + json list" where
  "bind_args [] paramList i = Inr []"
| "bind_args (argType # rest) paramList i =
     (case (if i - 1 < length paramList
            then (case paramList ! (i - 1) of
                    None \<Rightarrow> Inl ''unexpected end of JSON input''
                  | Some raw \<Rightarrow> arg_Unmarshal argType raw)
            else Inr (arg_Zero argType)) of
        Inl e \<Rightarrow>
          Inl (RPCErr \<lparr>Code = ErrCodeInvalidParams,
                       Message = ''invalid param '' @ show_nat i @ '': '' @ e\<rparr>)
      | Inr arg \<Rightarrow>
          (case bind_args rest paramList (i + 1) of
             Inl err \<Rightarrow> Inl err
           | Inr args \<Rightarrow> Inr (arg # args)))"

text \<open>
  \<open>executeMethod\<close>: the arguments, the call, and \<open>results[0].IsNil()\<close>, which is
  evaluated after every call that returns, whatever the error.
\<close>

definition executeMethod :: "methodHandler \<Rightarrow> json option \<Rightarrow> go_error + json option" where
  "executeMethod handler params =
     (case (if argTypes handler \<noteq> []
            then bind_args (argTypes handler) (param_list params) 1
            else Inr []) of
        Inl err \<Rightarrow> Inl err
      | Inr args \<Rightarrow>
          (case method_Func handler args of
             Inl (Panic m) \<Rightarrow> Inl (Panic m)
           | results \<Rightarrow>
               if \<not> has_nil (out_Kind handler) then Inl (IsNil_panic (out_Kind handler))
               else results))"

subsection \<open>Requests\<close>

record 'b JSONRPCHandler =
  methods :: "string \<rightharpoonup> methodHandler"
  rateLimiter :: "'b RateLimiter option"

definition error_response :: "json \<Rightarrow> RPCError \<Rightarrow> JSONRPCResponse" where
  "error_response i e =
     \<lparr>resp_JSONRPC = ''2.0'', resp_ID = i, resp_Result = None, resp_Error = Some e\<rparr>"

text \<open>
  \<open>HandleRequest\<close> returns the response and the handler as it leaves it (the
  buckets). A panic unwinds the goroutine and leaves no response: \<open>None\<close>.
\<close>

definition HandleRequest ::
  "'b RateLib \<Rightarrow> 'b JSONRPCHandler \<Rightarrow> JSONRPCRequest \<Rightarrow> string
     \<Rightarrow> JSONRPCResponse option \<times> 'b JSONRPCHandler" where
  "HandleRequest L h req clientIP =
     (if req_JSONRPC req \<noteq> ''2.0'' then
        (Some (error_response (req_ID req)
                 \<lparr>Code = ErrCodeInvalidRequest, Message = ''invalid jsonrpc version''\<rparr>), h)
      else
        (let ((allowed, limitType), h1) =
               (case rateLimiter h of
                  None \<Rightarrow> ((True, []), h)
                | Some rl \<Rightarrow>
                    (let (r, rl') = Allow L rl clientIP (req_Method req)
                     in (r, h\<lparr>rateLimiter := Some rl'\<rparr>)))
         in
           if \<not> allowed then
             (Some (error_response (req_ID req)
                      \<lparr>Code = ErrCodeLimitExceeded,
                        Message = ''rate limit exceeded: '' @ limitType\<rparr>), h1)
           else
             (case methods h1 (req_Method req) of
                None \<Rightarrow>
                  (Some (error_response (req_ID req)
                           \<lparr>Code = ErrCodeMethodNotFound,
                             Message = ''method not found: '' @ req_Method req\<rparr>), h1)
              | Some handler \<Rightarrow>
                  (case executeMethod handler (req_Params req) of
                     Inl (Panic m) \<Rightarrow> (None, h1)
                   | Inl (RPCErr rpcErr) \<Rightarrow> (Some (error_response (req_ID req) rpcErr), h1)
                   | Inl err \<Rightarrow>
                       (Some (error_response (req_ID req)
                                \<lparr>Code = ErrCodeInternal, Message = Error_text err\<rparr>), h1)
                   | Inr result \<Rightarrow>
                       (Some \<lparr>resp_JSONRPC = ''2.0'', resp_ID = req_ID req, resp_Result = result,
                              resp_Error = None\<rparr>, h1)))))"

text \<open>
  \<open>HandleBatch\<close>: the loop over the requests, in order. An entry is a pointer; a nil
  one (a \<open>null\<close> in the batch) is dereferenced by \<open>HandleRequest\<close>, which panics. A
  panic ends the loop and the batch has no response.
\<close>

fun HandleBatch ::
  "'b RateLib \<Rightarrow> 'b JSONRPCHandler \<Rightarrow> JSONRPCRequest option list \<Rightarrow> string
     \<Rightarrow> JSONRPCResponse list option \<times> 'b JSONRPCHandler" where
  "HandleBatch L h [] clientIP = (Some [], h)"
| "HandleBatch L h (None # requests) clientIP = (None, h)"
| "HandleBatch L h (Some req # requests) clientIP =
     (case HandleRequest L h req clientIP of
        (None, h1) \<Rightarrow> (None, h1)
      | (Some resp, h1) \<Rightarrow>
          (case HandleBatch L h1 requests clientIP of
             (None, h2) \<Rightarrow> (None, h2)
           | (Some responses, h2) \<Rightarrow> (Some (resp # responses), h2)))"

subsection \<open>Reading a request\<close>

text \<open>
  \<open>json.Unmarshal\<close> into a \<open>JSONRPCRequest\<close>, member by member. A member goes to the
  field whose name it has, or else to the first field that its name matches by case
  folding, and is skipped when there is none. A later member overwrites an earlier
  one. For a string field \<open>null\<close> changes nothing, and a value of another kind is a
  type error, reported when the whole object has been read. \<open>ID\<close> takes the value as
  the library holds it in an \<open>interface{}\<close>, and \<open>Params\<close> the raw document. A document
  other than an object or \<open>null\<close> is a type error, and \<open>null\<close> changes nothing.
\<close>

definition zero_request :: JSONRPCRequest where
  "zero_request = \<lparr>req_JSONRPC = [], req_ID = JNull, req_Method = [], req_Params = None\<rparr>"

definition request_fields :: "string list" where
  "request_fields = [''jsonrpc'', ''id'', ''method'', ''params'']"

definition field_of :: "'a Json_scheme \<Rightarrow> string \<Rightarrow> string option" where
  "field_of J k =
     (if k \<in> set request_fields then Some k
      else find (\<lambda>name. json_equalFold J name k) request_fields)"

fun unmarshal_member ::
  "'a Json_scheme \<Rightarrow> (bool \<times> JSONRPCRequest) \<Rightarrow> (string \<times> json) \<Rightarrow> (bool \<times> JSONRPCRequest)" where
  "unmarshal_member J (ok, r) (k, v) =
     (case field_of J k of
        None \<Rightarrow> (ok, r)
      | Some name \<Rightarrow>
          if name = ''jsonrpc'' then
            (case v of JString s \<Rightarrow> (ok, r\<lparr>req_JSONRPC := s\<rparr>) | JNull \<Rightarrow> (ok, r) | _ \<Rightarrow> (False, r))
          else if name = ''id'' then
            (case json_Interface J v of None \<Rightarrow> (False, r) | Some i \<Rightarrow> (ok, r\<lparr>req_ID := i\<rparr>))
          else if name = ''method'' then
            (case v of JString s \<Rightarrow> (ok, r\<lparr>req_Method := s\<rparr>) | JNull \<Rightarrow> (ok, r) | _ \<Rightarrow> (False, r))
          else (ok, r\<lparr>req_Params := Some v\<rparr>))"

definition unmarshal_request :: "'a Json_scheme \<Rightarrow> JSONRPCRequest \<Rightarrow> json \<Rightarrow> JSONRPCRequest option" where
  "unmarshal_request J r0 j =
     (case j of
        JNull \<Rightarrow> Some r0
      | JObject members \<Rightarrow>
          (case foldl (unmarshal_member J) (True, r0) members of
             (True, r) \<Rightarrow> Some r
           | (False, r) \<Rightarrow> None)
      | _ \<Rightarrow> None)"

text \<open>
  \<open>json.Unmarshal\<close> into a \<open>[]*JSONRPCRequest\<close>: \<open>null\<close> gives the nil slice, an array
  gives one pointer per element, nil for \<open>null\<close>, and any type error fails the whole.
\<close>

fun unmarshal_elements :: "'a Json_scheme \<Rightarrow> json list \<Rightarrow> JSONRPCRequest option list option" where
  "unmarshal_elements J [] = Some []"
| "unmarshal_elements J (JNull # xs) =
     (case unmarshal_elements J xs of None \<Rightarrow> None | Some rs \<Rightarrow> Some (None # rs))"
| "unmarshal_elements J (x # xs) =
     (case unmarshal_request J zero_request x of
        None \<Rightarrow> None
      | Some r \<Rightarrow> (case unmarshal_elements J xs of None \<Rightarrow> None | Some rs \<Rightarrow> Some (Some r # rs)))"

definition unmarshal_batch :: "'a Json_scheme \<Rightarrow> json \<Rightarrow> JSONRPCRequest option list option" where
  "unmarshal_batch J j =
     (case j of JNull \<Rightarrow> Some [] | JArray xs \<Rightarrow> unmarshal_elements J xs | _ \<Rightarrow> None)"

datatype parsed_request = Single JSONRPCRequest | Batch "JSONRPCRequest option list"

text \<open>
  \<open>ParseRequest\<close>: the body is read as one request, and when that fails or leaves
  \<open>jsonrpc\<close> empty, as a batch.
\<close>

definition parse_batch :: "'a Json_scheme \<Rightarrow> bytes \<Rightarrow> go_error + parsed_request" where
  "parse_batch J data =
     (case (case json_Document J data of None \<Rightarrow> None | Some j \<Rightarrow> unmarshal_batch J j) of
        None \<Rightarrow> Inl (RPCErr \<lparr>Code = ErrCodeParse, Message = ''failed to parse request''\<rparr>)
      | Some batch \<Rightarrow>
          if length batch = 0
          then Inl (RPCErr \<lparr>Code = ErrCodeInvalidRequest, Message = ''empty batch request''\<rparr>)
          else Inr (Batch batch))"

definition ParseRequest :: "'a Json_scheme \<Rightarrow> bytes \<Rightarrow> go_error + parsed_request" where
  "ParseRequest J data =
     (case (case json_Document J data of None \<Rightarrow> None | Some j \<Rightarrow> unmarshal_request J zero_request j) of
        Some single \<Rightarrow>
          if req_JSONRPC single \<noteq> [] then Inr (Single single)
          else parse_batch J data
      | None \<Rightarrow> parse_batch J data)"

section \<open>HTTP transport (\<open>pkg/server/http.go\<close>)\<close>

text \<open>
  What \<open>handleRPC\<close> writes: one response, an array of responses, or nothing when the
  handler panicked. \<open>sendJSONRPCError\<close> writes an error response with the given id.
\<close>

datatype http_reply = Reply JSONRPCResponse | BatchReply "JSONRPCResponse list" | NoReply

definition sendJSONRPCError :: "json \<Rightarrow> int \<Rightarrow> string \<Rightarrow> http_reply" where
  "sendJSONRPCError i code message =
     Reply \<lparr>resp_JSONRPC = ''2.0'', resp_ID = i, resp_Result = None,
            resp_Error = Some \<lparr>Code = code, Message = message\<rparr>\<rparr>"

text \<open>The body is what \<open>io.ReadAll\<close> returns: the bytes, or the text of a read error.\<close>

definition handleRPC ::
  "'b RateLib \<Rightarrow> 'a Json_scheme \<Rightarrow> 'b JSONRPCHandler \<Rightarrow> string + bytes \<Rightarrow> string
     \<Rightarrow> http_reply \<times> 'b JSONRPCHandler" where
  "handleRPC L J h body clientIP =
     (case body of
        Inl e \<Rightarrow> (sendJSONRPCError JNull (- 32700) ''failed to read request body'', h)
      | Inr data \<Rightarrow>
          (case ParseRequest J data of
             Inl err \<Rightarrow> (sendJSONRPCError JNull (- 32700) (Error_text err), h)
           | Inr (Single v) \<Rightarrow>
               (case HandleRequest L h v clientIP of
                  (None, h') \<Rightarrow> (NoReply, h')
                | (Some response, h') \<Rightarrow> (Reply response, h'))
           | Inr (Batch v) \<Rightarrow>
               (case HandleBatch L h v clientIP of
                  (None, h') \<Rightarrow> (NoReply, h')
                | (Some responses, h') \<Rightarrow> (BatchReply responses, h'))))"

section \<open>Subscription manager (\<open>pkg/server\<close>, subscription file)\<close>

subsection \<open>Log filters\<close>

record FilterCriteria =
  Addresses :: "Address list"
  Topics :: "Hash list list"

text \<open>
  The inner loops of \<open>matchLogFilter\<close>: \<open>matched\<close> becomes true at the first equal
  element and the loop breaks.
\<close>

fun matched_in :: "'a \<Rightarrow> 'a list \<Rightarrow> bool" where
  "matched_in x [] = False"
| "matched_in x (y # ys) = (if x = y then True else matched_in x ys)"

text \<open>
  The topic loop \<open>for i, topicSet := range filter.Topics\<close>, with the position \<open>i\<close>
  carried along: the bound check on the log's topics comes before the wildcard test.
\<close>

fun match_topics :: "Hash list \<Rightarrow> nat \<Rightarrow> Hash list list \<Rightarrow> bool" where
  "match_topics lts i [] = True"
| "match_topics lts i (topicSet # rest) =
     (if i \<ge> length lts then False
      else if length topicSet = 0 then match_topics lts (i + 1) rest
      else if \<not> matched_in (lts ! i) topicSet then False
      else match_topics lts (i + 1) rest)"

definition matchLogFilter :: "Log \<Rightarrow> FilterCriteria \<Rightarrow> bool" where
  "matchLogFilter lg flt =
     (if length (Addresses flt) > 0 \<and> \<not> matched_in (log_Address lg) (Addresses flt) then False
      else match_topics (log_Topics lg) 0 (Topics flt))"

subsection \<open>Subscription ids and the registry\<close>

text \<open>
  \<open>common.BigToHash(b)\<close> is \<open>BytesToHash(b.Bytes())\<close>: the big-endian bytes of the
  absolute value, cropped from the left to 32 bytes and right-aligned in a zeroed
  \<open>[32]byte\<close>.
\<close>

function big_Bytes :: "nat \<Rightarrow> bytes" where
  "big_Bytes n = (if n = 0 then [] else big_Bytes (n div 256) @ [of_nat (n mod 256)])"
  by pat_completeness auto
termination
  by (relation "measure (\<lambda>n. n)") auto

declare big_Bytes.simps [simp del]

definition BytesToHash :: "bytes \<Rightarrow> Hash" where
  "BytesToHash b =
     (let b' = (if length b > 32 then drop (length b - 32) b else b)
      in replicate (32 - length b') 0 @ b')"

definition BigToHash :: "int \<Rightarrow> Hash" where
  "BigToHash b = BytesToHash (big_Bytes (nat \<bar>b\<bar>))"

definition Big1 :: int where
  "Big1 = 1"

definition generateSubscriptionID :: string where
  "generateSubscriptionID = ''0x'' @ hex_bytes (take 16 (BigToHash Big1))"

datatype SubscriptionType = SubscriptionNewHeads | SubscriptionLogs | SubscriptionNewPendingTransactions

text \<open>
  A \<open>*WebSocketConnection\<close> is known by its identity only, a number here. The
  cancel function of a subscription has no effect on the registry and is left out.
\<close>

type_synonym conn_id = nat

record Subscription =
  sub_ID :: string
  sub_Type :: SubscriptionType
  sub_Filter :: "FilterCriteria option"
  sub_conn :: conn_id

record SubscriptionManager =
  subscriptions :: "string \<rightharpoonup> Subscription"
  connections :: "conn_id \<rightharpoonup> (string \<rightharpoonup> Subscription)"

text \<open>\<open>Subscribe\<close> returns the id and the registry as it leaves it (the error is always nil).\<close>

definition Subscribe ::
  "SubscriptionManager \<Rightarrow> conn_id \<Rightarrow> SubscriptionType \<Rightarrow> FilterCriteria option
     \<Rightarrow> string \<times> SubscriptionManager" where
  "Subscribe sm c subType flt =
     (let subID = generateSubscriptionID;
          sub = \<lparr>sub_ID = subID, sub_Type = subType, sub_Filter = flt, sub_conn = c\<rparr>;
          subs' = (subscriptions sm)(subID \<mapsto> sub);
          conns0 = (case connections sm c of
                      None \<Rightarrow> (connections sm)(c \<mapsto> Map.empty)
                    | Some m \<Rightarrow> connections sm);
          conns' = conns0(c \<mapsto> (case conns0 c of None \<Rightarrow> Map.empty | Some m \<Rightarrow> m)(subID \<mapsto> sub))
      in (subID, \<lparr>subscriptions = subs', connections = conns'\<rparr>))"

section \<open>Vocabulary of the statements\<close>

text \<open>
  A hex digit, of either case as \<open>strconv.ParseUint\<close> takes it, and the number a string
  of hex digits denotes.
\<close>

definition is_hex_digit :: "char \<Rightarrow> bool" where
  "is_hex_digit c = (c \<in> set ''0123456789abcdefABCDEF'')"

definition hex_value :: "string \<Rightarrow> nat" where
  "hex_value ds = foldl (\<lambda>a c. 16 * a + the (digit_value c)) 0 ds"

text \<open>The value the hex loop has reached, for its invariant.\<close>

definition val_from :: "nat \<Rightarrow> string \<Rightarrow> nat" where
  "val_from n ds = foldl (\<lambda>a c. 16 * a + the (digit_value c)) n ds"

text \<open>
  The number of blocks \<open>FeeHistory\<close> reports on: the requested count, 1 for a
  request of 0, capped at the blocks up to the end block.
\<close>

definition effective_count :: "u64 \<Rightarrow> u64 \<Rightarrow> nat" where
  "effective_count blockCount endBlock =
     min (if blockCount = 0 then 1 else unat blockCount) (unat endBlock + 1)"



text \<open>
  The terms of admission: a chain id that is present and differs from the configured
  one, the price used for the balance check, and the cost the balance must cover, with
  the gas limit read as the unsigned number it is.
\<close>

definition chain_id_mismatch :: "u64 \<Rightarrow> Transaction \<Rightarrow> bool" where
  "chain_id_mismatch chainID tx =
     (case tx_ChainId tx of None \<Rightarrow> False | Some c \<Rightarrow> big_Uint64 c \<noteq> chainID)"

definition effective_gas_price :: "Transaction \<Rightarrow> int" where
  "effective_gas_price tx =
     (case tx_GasPrice tx of
        Some g \<Rightarrow> g
      | None \<Rightarrow> (case tx_GasFeeCap tx of Some g \<Rightarrow> g | None \<Rightarrow> 0))"

definition admission_cost :: "Transaction \<Rightarrow> int" where
  "admission_cost tx = tx_Value tx + uint (tx_Gas tx) * effective_gas_price tx"

section \<open>Example data\<close>

text \<open>
  The string functions as the library computes them on ASCII text: the letters \<open>A\<close>
  to \<open>Z\<close> are lowered; tab, line feed, vertical tab, form feed, carriage return and
  space are trimmed; a quoted string escapes the quote, the backslash and the
  characters that are not printable. The examples apply them to ASCII text only.
\<close>

definition to_lower_char :: "char \<Rightarrow> char" where
  "to_lower_char c =
     (if 65 \<le> (of_char c :: nat) \<and> (of_char c :: nat) \<le> 90 then char_of ((of_char c :: nat) + 32) else c)"

definition is_space :: "char \<Rightarrow> bool" where
  "is_space c = ((of_char c :: nat) \<in> {9, 10, 11, 12, 13, 32})"

definition quote_char :: "char \<Rightarrow> string" where
  "quote_char c =
     (let n = (of_char c :: nat) in
      if n = 34 then [CHR 0x5C, CHR 0x22]
      else if n = 92 then [CHR 0x5C, CHR 0x5C]
      else if 32 \<le> n \<and> n < 127 then [c]
      else if n = 7 then [CHR 0x5C, CHR ''a'']
      else if n = 8 then [CHR 0x5C, CHR ''b'']
      else if n = 12 then [CHR 0x5C, CHR ''f'']
      else if n = 10 then [CHR 0x5C, CHR ''n'']
      else if n = 13 then [CHR 0x5C, CHR ''r'']
      else if n = 9 then [CHR 0x5C, CHR ''t'']
      else if n = 11 then [CHR 0x5C, CHR ''v'']
      else [CHR 0x5C, CHR ''x'', hex_digit (n div 16), hex_digit (n mod 16)])"

definition ascii_ToLower :: "string \<Rightarrow> string" where
  "ascii_ToLower s = map to_lower_char s"

definition ascii_TrimSpace :: "string \<Rightarrow> string" where
  "ascii_TrimSpace s = rev (dropWhile is_space (rev (dropWhile is_space s)))"

definition ascii_Quote :: "string \<Rightarrow> string" where
  "ascii_Quote s = [CHR 0x22] @ concat (map quote_char s) @ [CHR 0x22]"

definition ascii_strings :: Strings where
  "ascii_strings = \<lparr>ToLower = ascii_ToLower, TrimSpace = ascii_TrimSpace, Quote = ascii_Quote\<rparr>"

text \<open>
  A store, a transaction, and codecs that know one encoding each: the byte string
  \<open>[1]\<close> for the transaction, \<open>[2]\<close> for a body holding it, \<open>[3]\<close> for a header,
  \<open>[4]\<close> for an account document, \<open>[5]\<close> for a lookup document that points to
  index 0 of block 5, \<open>[6]\<close> for a list of one receipt and \<open>[7]\<close> for the empty list
  of receipts.
\<close>

definition store_of :: "(string \<times> bytes) list \<Rightarrow> Pika" where
  "store_of kvs =
     \<lparr>kv_strings = map_of kvs, kv_zsets = (\<lambda>k. Map.empty), kv_published = [],
      unavailable = Map.empty\<rparr>"

definition example_tx :: Transaction where
  "example_tx =
     \<lparr>tx_Nonce = 7, tx_Gas = 21000, tx_GasPrice = Some 10, tx_GasFeeCap = None, tx_Value = 1000,
      tx_ChainId = Some 56, tx_Hash = replicate 32 0xAB, tx_Sender = Inr (replicate 20 0x11)\<rparr>"

definition example_account :: AccountState where
  "example_account = \<lparr>acc_Nonce = 5, acc_Balance = Some 1000000, acc_CodeHash = []\<rparr>"

definition example_lookup :: TxLookup where
  "example_lookup = \<lparr>lk_BlockNumber = 5, lk_BlockHash = ''0xcd'', lk_Index = 0\<rparr>"

definition example_receipt :: Receipt where
  "example_receipt = \<lparr>rc_Status = 1, rc_GasUsed = 21000, rc_Logs = []\<rparr>"

definition example_codec :: "Transaction \<Rightarrow> AccountState \<Rightarrow> Codec" where
  "example_codec tx acc =
     \<lparr>ToLower = ascii_ToLower, TrimSpace = ascii_TrimSpace, Quote = ascii_Quote,
      rlp_Transaction = (\<lambda>b. if b = [1] then Inr tx else Inl ''rlp: unexpected input''),
      rlp_Header = (\<lambda>b. if b = [3] then Inr \<lparr>hdr_Number = 5, hdr_Hash = replicate 32 0xCD\<rparr>
                          else Inl ''rlp: unexpected input''),
      rlp_Body = (\<lambda>b. if b = [2] then Inr \<lparr>body_Transactions = [tx], body_Uncles = []\<rparr>
                        else Inl ''rlp: unexpected input''),
      rlp_Receipts = (\<lambda>b. if b = [6] then Inr [example_receipt]
                            else if b = [7] then Inr []
                            else Inl ''rlp: unexpected input''),
      rlp_Encode = (\<lambda>t. Inr [1]),
      json_AccountState = (\<lambda>b. if b = [4] then Inr acc else Inl ''unexpected end of JSON input''),
      json_TxLookup = (\<lambda>b. if b = [5] then Inr example_lookup
                             else Inl ''unexpected end of JSON input''),
      Address_Hex = (\<lambda>a. ''0x'' @ hex_bytes a),
      HexToHash = (\<lambda>s. replicate 32 0)\<rparr>"

text \<open>A store holding the example account of the example sender.\<close>

definition example_store :: "Codec \<Rightarrow> Pika" where
  "example_store C = store_of [(account_key C (replicate 20 0x11) ''latest'', [4])]"

text \<open>
  A JSON library that knows one body, the empty array. It folds the case of ASCII
  letters, and it holds a value in an \<open>interface{}\<close> as it is written, as the library
  does with \<open>null\<close>, a boolean or a string.
\<close>

definition example_json :: Json where
  "example_json =
     \<lparr>json_Document = (\<lambda>data. if data = bytes_of_string ''[]'' then Some (JArray []) else None),
      json_Interface = (\<lambda>j. Some j),
      json_equalFold = (\<lambda>name k. ascii_ToLower name = ascii_ToLower k)\<rparr>"

text \<open>
  A handler without limiter over two methods of the API, as \<open>RegisterService\<close> names
  them, on a store that holds nothing: \<open>TransactionAPI.GetTransactionByHash\<close>, whose
  result is a pointer and which returns nil and no error there, and
  \<open>BlockAPI.BlockNumber\<close>, whose result is a \<open>hexutil.Uint64\<close> and which returns the
  error of the store.
\<close>

definition example_handler :: "nat JSONRPCHandler" where
  "example_handler =
     \<lparr>methods =
        [''eth_GetTransactionByHash'' \<mapsto>
           \<lparr>argTypes =
              [\<lparr>arg_Zero = JString (Hash_Hex (replicate 32 0)),
                arg_Unmarshal =
                  (\<lambda>j. case j of
                          JString s \<Rightarrow> Inr (JString s)
                        | _ \<Rightarrow> Inl ''json: cannot unmarshal non-string into Go value of type common.Hash'')\<rparr>],
            out_Kind = Pointer,
            method_Func = (\<lambda>args. Inr None)\<rparr>,
         ''eth_BlockNumber'' \<mapsto>
           \<lparr>argTypes = [], out_Kind = Uint64, method_Func = (\<lambda>args. Inl ErrNotFound)\<rparr>],
      rateLimiter = None\<rparr>"

text \<open>Limiters over the example bucket.\<close>

definition example_limiter :: "nat option \<Rightarrow> (string \<rightharpoonup> nat) \<Rightarrow> int \<Rightarrow> nat RateLimiter" where
  "example_limiter g ips r =
     \<lparr>rl_global = g, ipLimiters = ips, methodLimits = [''eth_call'' \<mapsto> 2], ipRate = r, ipBurst = 5,
      enabled = True\<rparr>"

section \<open>Properties\<close>

subsection \<open>Log filter matching\<close>

lemma matched_in_set: "matched_in x ys \<longleftrightarrow> x \<in> set ys"
  by (induction ys) auto

lemma match_topics_iff:
  "i \<le> length lts \<Longrightarrow>
   match_topics lts i fts \<longleftrightarrow>
     (i + length fts \<le> length lts \<and>
      (\<forall>j < length fts. fts ! j = [] \<or> lts ! (i + j) \<in> set (fts ! j)))"
proof (induction fts arbitrary: i)
  case Nil
  then show ?case by simp
next
  case (Cons ts rest)
  have step: "(\<forall>j < Suc (length rest). (ts # rest) ! j = [] \<or> lts ! (i + j) \<in> set ((ts # rest) ! j))
      \<longleftrightarrow> (ts = [] \<or> lts ! i \<in> set ts) \<and>
          (\<forall>j < length rest. rest ! j = [] \<or> lts ! (Suc i + j) \<in> set (rest ! j))"
    by (simp add: All_less_Suc2)
  show ?case
  proof (cases "i \<ge> length lts")
    case True
    then show ?thesis by simp
  next
    case False
    then have "i + 1 \<le> length lts" by simp
    from Cons.IH [OF this] step False show ?thesis
      by (auto simp: matched_in_set)
  qed
qed

text \<open>
  C9. A log matches a filter exactly when the address list is empty or holds the log's
  address, the filter has no more topic positions than the log has topics, and at every
  position of the filter the set is empty (wildcard) or holds the log's topic at that
  position. In particular a filter with more topic positions than the log has topics
  never matches.
\<close>

theorem matchLogFilter_positional:
  "(matchLogFilter lg flt \<longleftrightarrow>
      (Addresses flt = [] \<or> log_Address lg \<in> set (Addresses flt)) \<and>
      \<not> length (Topics flt) > length (log_Topics lg) \<and>
      (\<forall>i < length (Topics flt). Topics flt ! i = [] \<or>
          (i < length (log_Topics lg) \<and> log_Topics lg ! i \<in> set (Topics flt ! i)))) \<and>
   (length (Topics flt) > length (log_Topics lg) \<longrightarrow> \<not> matchLogFilter lg flt)"
proof -
  have "match_topics (log_Topics lg) 0 (Topics flt) \<longleftrightarrow>
      length (Topics flt) \<le> length (log_Topics lg) \<and>
      (\<forall>j < length (Topics flt). Topics flt ! j = [] \<or> log_Topics lg ! j \<in> set (Topics flt ! j))"
    using match_topics_iff [where lts = "log_Topics lg" and i = 0 and fts = "Topics flt"] by simp
  then show ?thesis
    unfolding matchLogFilter_def
    by (auto simp: matched_in_set)
qed

theorem matchLogFilter_positional_witness:
  "matchLogFilter \<lparr>log_Address = [1], log_Topics = [[2], [3]]\<rparr>
       \<lparr>Addresses = [], Topics = [[], [[3]]]\<rparr> \<and>
   \<not> matchLogFilter \<lparr>log_Address = [1], log_Topics = []\<rparr> \<lparr>Addresses = [], Topics = [[]]\<rparr>"
  using
    matchLogFilter_positional [of "\<lparr>log_Address = [1], log_Topics = [[2], [3]]\<rparr>"
        "\<lparr>Addresses = [], Topics = [[], [[3]]]\<rparr>"]
    matchLogFilter_positional [of "\<lparr>log_Address = [1], log_Topics = []\<rparr>"
        "\<lparr>Addresses = [], Topics = [[]]\<rparr>"]
  by (simp add: All_less_Suc2)

subsection \<open>Subscription ids\<close>

lemma generateSubscriptionID_value:
  "generateSubscriptionID = ''0x00000000000000000000000000000000''"
  by code_simp

text \<open>
  C10. \<open>generateSubscriptionID\<close> is one fixed string, the hex form of the first 16
  bytes of the 32-byte big-endian 1 (all zero). So two \<open>Subscribe\<close> calls in a row,
  from any connections and of any types, return the same id, and after the second the
  registry holds the second subscription under that id.
\<close>

theorem Subscribe_same_id_replaces:
  "generateSubscriptionID = ''0x'' @ hex_bytes (replicate 16 0) \<and>
   fst (Subscribe sm c1 t1 f1) = generateSubscriptionID \<and>
   fst (Subscribe (snd (Subscribe sm c1 t1 f1)) c2 t2 f2) = fst (Subscribe sm c1 t1 f1) \<and>
   subscriptions (snd (Subscribe (snd (Subscribe sm c1 t1 f1)) c2 t2 f2))
       (fst (Subscribe sm c1 t1 f1)) =
     Some \<lparr>sub_ID = generateSubscriptionID, sub_Type = t2, sub_Filter = f2, sub_conn = c2\<rparr>"
proof -
  have "''0x'' @ hex_bytes (replicate 16 0) = ''0x00000000000000000000000000000000''"
    by code_simp
  then show ?thesis
    by (simp add: generateSubscriptionID_value Subscribe_def Let_def)
qed

subsection \<open>Block tags\<close>

lemma char_eq_nat: "c = d \<longleftrightarrow> (of_char c :: nat) = of_char d"
  by simp

lemma hex_digit_nat:
  "is_hex_digit c \<longleftrightarrow> (of_char c :: nat) \<in> {48..57} \<union> {97..102} \<union> {65..70}"
  unfolding is_hex_digit_def
  apply (simp add: char_eq_nat [of c])
  apply arith
  done

lemma digit_value_hex: "(\<exists>d. digit_value c = Some d \<and> d < 16) \<longleftrightarrow> is_hex_digit c"
  unfolding hex_digit_nat digit_value_def Let_def
  by auto

lemma hex_digits:
  "list_all (\<lambda>c. \<exists>d. digit_value c = Some d \<and> d < 16) ds \<longleftrightarrow> list_all is_hex_digit ds"
  using digit_value_hex by (simp add: list_all_iff)

lemma val_from_ge: "n \<le> val_from n ds"
  unfolding val_from_def
proof (induction ds arbitrary: n)
  case Nil
  then show ?case by simp
next
  case (Cons c cs)
  have "n \<le> 16 * n + the (digit_value c)" by simp
  also have "\<dots> \<le> foldl (\<lambda>a c. 16 * a + the (digit_value c)) (16 * n + the (digit_value c)) cs"
    by (rule Cons.IH)
  finally show ?case by simp
qed

lemma loop16:
  "n < 2 ^ 64 \<Longrightarrow> ParseUint_loop 16 n ds = Inr v \<longleftrightarrow>
     (list_all (\<lambda>c. \<exists>d. digit_value c = Some d \<and> d < 16) ds \<and> val_from n ds < 2 ^ 64 \<and> v = val_from n ds)"
proof (induction ds arbitrary: n)
  case Nil
  then show ?case by (auto simp: val_from_def)
next
  case (Cons c cs)
  show ?case
  proof (cases "digit_value c")
    case None
    then show ?thesis by simp
  next
    case (Some d)
    show ?thesis
    proof (cases "d < 16")
      case False
      with Some show ?thesis by simp
    next
      case True
      show ?thesis
      proof (cases "n \<ge> cutoff 16")
        case big: True
        then have "16 * n + d \<ge> 2 ^ 64" by (simp add: cutoff_def)
        moreover have "val_from (16 * n + d) cs \<ge> 16 * n + d" by (rule val_from_ge)
        ultimately have "\<not> val_from n (c # cs) < 2 ^ 64"
          using Some by (simp add: val_from_def)
        with Some True big show ?thesis by simp
      next
        case small: False
        then have lt: "16 * n + d < 2 ^ 64" using True by (simp add: cutoff_def)
        then have m1: "(n * 16) mod 2 ^ 64 = n * 16" by simp
        have m2: "(n * 16 + d) mod 2 ^ 64 = n * 16 + d" using lt by (simp add: mult.commute)
        have v: "val_from n (c # cs) = val_from (n * 16 + d) cs"
          using Some by (simp add: val_from_def mult.commute)
        have "n * 16 + d < 2 ^ 64" using lt by (simp add: mult.commute)
        from Cons.IH [OF this] show ?thesis
          using Some True small lt
          by (simp add: m1 m2 v Let_def)
      qed
    qed
  qed
qed

lemma ParseUint16:
  "(\<exists>v. ParseUint ds 16 = Inr v) \<longleftrightarrow>
     (ds \<noteq> [] \<and> list_all (\<lambda>c. \<exists>d. digit_value c = Some d \<and> d < 16) ds \<and> hex_value ds < 2 ^ 64)"
proof -
  have z: "(0::nat) < 2 ^ 64" by simp
  have l: "\<And>v. ParseUint_loop 16 0 ds = Inr v \<longleftrightarrow>
     (list_all (\<lambda>c. \<exists>d. digit_value c = Some d \<and> d < 16) ds \<and> val_from 0 ds < 2 ^ 64 \<and> v = val_from 0 ds)"
    by (rule loop16 [OF z])
  have hv: "hex_value ds = val_from 0 ds" by (simp add: hex_value_def val_from_def)
  show ?thesis
  proof (cases "ParseUint_loop 16 0 ds")
    case (Inl e)
    with l [of "val_from 0 ds"] show ?thesis by (auto simp: ParseUint_def hv)
  next
    case (Inr v)
    with l [of v] show ?thesis by (auto simp: ParseUint_def hv)
  qed
qed

lemma HasPrefix_0x: "HasPrefix t ''0x'' \<longleftrightarrow> (\<exists>ds. t = ''0x'' @ ds)"
  unfolding HasPrefix_def
  by (metis append_take_drop_id length_append le_add1 append_eq_conv_conj)

lemma ParseBlockNumber_ok_iff:
  "(\<exists>bn. ParseBlockNumber S s = Inr bn) \<longleftrightarrow>
     (TrimSpace S (ToLower S s) \<in> {''latest'', ''earliest'', ''pending''} \<or>
      (\<exists>ds. TrimSpace S (ToLower S s) = ''0x'' @ ds \<and> ds \<noteq> [] \<and> list_all is_hex_digit ds \<and>
            hex_value ds < 2 ^ 64))"
proof -
  define t where "t = TrimSpace S (ToLower S s)"
  show ?thesis
  proof (cases "t \<in> {''latest'', ''earliest'', ''pending''}")
    case True
    then show ?thesis
      unfolding ParseBlockNumber_def Let_def t_def [symmetric] by auto
  next
    case lit: False
    show ?thesis
    proof (cases "HasPrefix t ''0x''")
      case False
      then have "\<not> (\<exists>ds. t = ''0x'' @ ds)" by (simp add: HasPrefix_0x)
      with lit False show ?thesis
        unfolding ParseBlockNumber_def Let_def t_def [symmetric] by auto
    next
      case True
      then obtain ds where ds: "t = ''0x'' @ ds" by (auto simp: HasPrefix_0x)
      then have dr: "drop 2 t = ds" by simp
      have "(\<exists>bn. ParseBlockNumber S s = Inr bn) \<longleftrightarrow> (\<exists>v. ParseUint ds 16 = Inr v)"
        using lit True
        unfolding ParseBlockNumber_def Let_def t_def [symmetric] dr
        by (auto split: sum.splits)
      also have "\<dots> \<longleftrightarrow> (ds \<noteq> [] \<and> list_all is_hex_digit ds \<and> hex_value ds < 2 ^ 64)"
        using ParseUint16 [of ds] hex_digits [of ds] by simp
      finally show ?thesis
        using lit ds unfolding t_def [symmetric] by auto
    qed
  qed
qed

lemma ParseUint16_value:
  assumes "ds \<noteq> []" and "list_all is_hex_digit ds" and "hex_value ds < 2 ^ 64"
  shows "ParseUint ds 16 = Inr (of_nat (hex_value ds))"
proof -
  have z: "(0::nat) < 2 ^ 64" by simp
  have hv: "hex_value ds = val_from 0 ds" by (simp add: hex_value_def val_from_def)
  have "ParseUint_loop 16 0 ds = Inr (val_from 0 ds)"
    using loop16 [OF z, of ds "val_from 0 ds"] assms(2,3) hex_digits [of ds] hv by simp
  then show ?thesis using assms(1) by (simp add: ParseUint_def hv)
qed

lemma ParseBlockNumber_hex_value:
  assumes "TrimSpace S (ToLower S s) = ''0x'' @ ds" and "ds \<noteq> []"
    and "list_all is_hex_digit ds" and "hex_value ds < 2 ^ 64"
  shows "ParseBlockNumber S s = Inr (of_nat (hex_value ds))"
proof -
  have p: "HasPrefix (''0x'' @ ds) ''0x''" by (simp add: HasPrefix_def)
  have d: "drop 2 (''0x'' @ ds) = ds" by simp
  show ?thesis
    unfolding ParseBlockNumber_def Let_def assms(1)
    using p ParseUint16_value [OF assms(2-4)] by (simp add: d)
qed

lemma ParseBlockNumber_total:
  "(\<exists>bn. ParseBlockNumber S s = Inr bn) \<or> (\<exists>err. ParseBlockNumber S s = Inl err)"
  by (cases "ParseBlockNumber S s") auto

lemma parse_failure:
  assumes "ParseBlockNumber C s = Inl err"
  shows "GetBlockByNumber C p s full =
           Inl (RPCErr \<lparr>Code = - 32602, Message = ''invalid block number: '' @ Error_text err\<rparr>)"
    and "GetTransactionByBlockNumberAndIndex C p s i =
           Inl (RPCErr \<lparr>Code = - 32602, Message = ''invalid block number: '' @ Error_text err\<rparr>)"
    and "GetStorageAt C p a k s =
           Inl (RPCErr \<lparr>Code = - 32602, Message = ''invalid block number: '' @ Error_text err\<rparr>)"
    and "FeeHistory C p count s ps =
           Inl (RPCErr \<lparr>Code = - 32602, Message = ''invalid block number: '' @ Error_text err\<rparr>)"
  using assms
  by (simp_all add: GetBlockByNumber_def GetTransactionByBlockNumberAndIndex_def GetStorageAt_def
      FeeHistory_def ErrCodeInvalidParams_def)

text \<open>
  C6 (as amended). \<open>ParseBlockNumber\<close> passes its input through \<open>strings.ToLower\<close> and
  then \<open>strings.TrimSpace\<close>, and succeeds exactly when what these give is \<open>latest\<close>,
  \<open>earliest\<close> or \<open>pending\<close>, or is \<open>0x\<close> followed by at least one hex digit with a
  value below \<open>2^64\<close>, and then it gives that value. On every other input it
  fails, and each of its callers in the API answers with invalid params (-32602). \<open>earliest\<close> resolves to height 0; \<open>latest\<close> and
  \<open>pending\<close> resolve to \<open>GetLatestBlockNumber\<close>, the decimal number stored under
  \<open>idx:latest\<close>.
\<close>

theorem ParseBlockNumber_forms:
  "((\<exists>bn. ParseBlockNumber C s = Inr bn) \<longleftrightarrow>
      (TrimSpace C (ToLower C s) \<in> {''latest'', ''earliest'', ''pending''} \<or>
       (\<exists>ds. TrimSpace C (ToLower C s) = ''0x'' @ ds \<and> ds \<noteq> [] \<and> list_all is_hex_digit ds \<and>
             hex_value ds < 2 ^ 64))) \<and>
   (\<forall>ds. TrimSpace C (ToLower C s) = ''0x'' @ ds \<and> ds \<noteq> [] \<and> list_all is_hex_digit ds \<and>
         hex_value ds < 2 ^ 64 \<longrightarrow>
      ParseBlockNumber C s = Inr (of_nat (hex_value ds))) \<and>
   (\<not> (\<exists>bn. ParseBlockNumber C s = Inr bn) \<longrightarrow>
      (\<exists>err. ParseBlockNumber C s = Inl err \<and>
         GetBlockByNumber C p s full =
           Inl (RPCErr \<lparr>Code = - 32602, Message = ''invalid block number: '' @ Error_text err\<rparr>) \<and>
         GetTransactionByBlockNumberAndIndex C p s i =
           Inl (RPCErr \<lparr>Code = - 32602, Message = ''invalid block number: '' @ Error_text err\<rparr>) \<and>
         GetStorageAt C p a k s =
           Inl (RPCErr \<lparr>Code = - 32602, Message = ''invalid block number: '' @ Error_text err\<rparr>) \<and>
         FeeHistory C p count s ps =
           Inl (RPCErr \<lparr>Code = - 32602, Message = ''invalid block number: '' @ Error_text err\<rparr>))) \<and>
   (TrimSpace C (ToLower C s) = ''earliest'' \<longrightarrow>
      ParseBlockNumber C s = Inr EarliestBlockNumber \<and>
      resolveBlockNumber C p EarliestBlockNumber = Inr 0) \<and>
   (TrimSpace C (ToLower C s) = ''latest'' \<longrightarrow>
      ParseBlockNumber C s = Inr LatestBlockNumber \<and>
      resolveBlockNumber C p LatestBlockNumber = GetLatestBlockNumber C p) \<and>
   (TrimSpace C (ToLower C s) = ''pending'' \<longrightarrow>
      ParseBlockNumber C s = Inr PendingBlockNumber \<and>
      resolveBlockNumber C p PendingBlockNumber = GetLatestBlockNumber C p) \<and>
   (\<forall>data n. Get p ''idx:latest'' = Inr data \<and> ParseUint (string_of_bytes data) 10 = Inr n \<longrightarrow>
      GetLatestBlockNumber C p = Inr n)"
proof -
  have a: "(\<exists>bn. ParseBlockNumber C s = Inr bn) \<longleftrightarrow>
      (TrimSpace C (ToLower C s) \<in> {''latest'', ''earliest'', ''pending''} \<or>
       (\<exists>ds. TrimSpace C (ToLower C s) = ''0x'' @ ds \<and> ds \<noteq> [] \<and> list_all is_hex_digit ds \<and>
             hex_value ds < 2 ^ 64))"
    by (rule ParseBlockNumber_ok_iff)
  have v: "\<forall>ds. TrimSpace C (ToLower C s) = ''0x'' @ ds \<and> ds \<noteq> [] \<and> list_all is_hex_digit ds \<and>
         hex_value ds < 2 ^ 64 \<longrightarrow>
      ParseBlockNumber C s = Inr (of_nat (hex_value ds))"
    using ParseBlockNumber_hex_value by blast
  have b: "\<not> (\<exists>bn. ParseBlockNumber C s = Inr bn) \<longrightarrow>
      (\<exists>err. ParseBlockNumber C s = Inl err \<and>
         GetBlockByNumber C p s full =
           Inl (RPCErr \<lparr>Code = - 32602, Message = ''invalid block number: '' @ Error_text err\<rparr>) \<and>
         GetTransactionByBlockNumberAndIndex C p s i =
           Inl (RPCErr \<lparr>Code = - 32602, Message = ''invalid block number: '' @ Error_text err\<rparr>) \<and>
         GetStorageAt C p a k s =
           Inl (RPCErr \<lparr>Code = - 32602, Message = ''invalid block number: '' @ Error_text err\<rparr>) \<and>
         FeeHistory C p count s ps =
           Inl (RPCErr \<lparr>Code = - 32602, Message = ''invalid block number: '' @ Error_text err\<rparr>))"
  proof
    assume "\<not> (\<exists>bn. ParseBlockNumber C s = Inr bn)"
    with ParseBlockNumber_total [of C s] obtain err where e: "ParseBlockNumber C s = Inl err"
      by blast
    from e parse_failure [OF e] show "\<exists>err. ParseBlockNumber C s = Inl err \<and>
         GetBlockByNumber C p s full =
           Inl (RPCErr \<lparr>Code = - 32602, Message = ''invalid block number: '' @ Error_text err\<rparr>) \<and>
         GetTransactionByBlockNumberAndIndex C p s i =
           Inl (RPCErr \<lparr>Code = - 32602, Message = ''invalid block number: '' @ Error_text err\<rparr>) \<and>
         GetStorageAt C p a k s =
           Inl (RPCErr \<lparr>Code = - 32602, Message = ''invalid block number: '' @ Error_text err\<rparr>) \<and>
         FeeHistory C p count s ps =
           Inl (RPCErr \<lparr>Code = - 32602, Message = ''invalid block number: '' @ Error_text err\<rparr>)"
      by blast
  qed
  have c: "TrimSpace C (ToLower C s) = ''earliest'' \<longrightarrow>
      ParseBlockNumber C s = Inr EarliestBlockNumber \<and>
      resolveBlockNumber C p EarliestBlockNumber = Inr 0"
    by (simp add: ParseBlockNumber_def resolveBlockNumber_def EarliestBlockNumber_def
        LatestBlockNumber_def PendingBlockNumber_def)
  have d: "TrimSpace C (ToLower C s) = ''latest'' \<longrightarrow>
      ParseBlockNumber C s = Inr LatestBlockNumber \<and>
      resolveBlockNumber C p LatestBlockNumber = GetLatestBlockNumber C p"
    by (simp add: ParseBlockNumber_def resolveBlockNumber_def)
  have e: "TrimSpace C (ToLower C s) = ''pending'' \<longrightarrow>
      ParseBlockNumber C s = Inr PendingBlockNumber \<and>
      resolveBlockNumber C p PendingBlockNumber = GetLatestBlockNumber C p"
    by (simp add: ParseBlockNumber_def resolveBlockNumber_def)
  have f: "\<forall>data n. Get p ''idx:latest'' = Inr data \<and> ParseUint (string_of_bytes data) 10 = Inr n \<longrightarrow>
      GetLatestBlockNumber C p = Inr n"
    by (simp add: GetLatestBlockNumber_def)
  from a v b c d e f show ?thesis by (intro conjI)
qed

lemma string_of_bytes_inverse: "string_of_bytes (bytes_of_string s) = s"
  unfolding string_of_bytes_def bytes_of_string_def
  by (induction s) (simp_all add: char_of_eq_iff unat_of_nat take_bit_eq_mod)

lemma example_strings:
  "ToLower (example_codec tx acc) = ascii_ToLower"
  "TrimSpace (example_codec tx acc) = ascii_TrimSpace"
  "Quote (example_codec tx acc) = ascii_Quote"
  by (simp_all add: example_codec_def)

lemma ascii_strings_fields:
  "ToLower ascii_strings = ascii_ToLower"
  "TrimSpace ascii_strings = ascii_TrimSpace"
  "Quote ascii_strings = ascii_Quote"
  by (simp_all add: ascii_strings_def)

theorem ParseBlockNumber_forms_witness:
  "ParseBlockNumber (example_codec example_tx example_account) '' 0X1f '' = Inr 31 \<and>
   ParseBlockNumber (example_codec example_tx example_account) ''Latest'' = Inr LatestBlockNumber \<and>
   resolveBlockNumber (example_codec example_tx example_account)
     (store_of [(''idx:latest'', bytes_of_string ''256'')]) LatestBlockNumber = Inr 256 \<and>
   ParseBlockNumber (example_codec example_tx example_account) ''latests'' =
     Inl (Errorf ''invalid block number: latests'') \<and>
   GetBlockByNumber (example_codec example_tx example_account)
       (store_of [(''idx:latest'', bytes_of_string ''256'')]) ''latests'' False =
     Inl (RPCErr \<lparr>Code = - 32602,
                  Message = ''invalid block number: invalid block number: latests''\<rparr>)"
proof -
  let ?p = "store_of [(''idx:latest'', bytes_of_string ''256'')]"
  let ?C = "example_codec example_tx example_account"
  have t1: "TrimSpace ?C (ToLower ?C '' 0X1f '') = ''0x'' @ ''1f''"
    unfolding example_strings by code_simp
  have t2: "TrimSpace ?C (ToLower ?C ''Latest'') = ''latest''"
    unfolding example_strings by code_simp
  have t3: "TrimSpace ?C (ToLower ?C ''latests'') = ''latests''"
    unfolding example_strings by code_simp
  have h1: "list_all is_hex_digit ''1f''" by code_simp
  have h2: "hex_value ''1f'' = 31" by (simp add: hex_value_def digit_value_def)
  have g: "Get ?p ''idx:latest'' = Inr (bytes_of_string ''256'')"
    by (simp add: Get_def store_of_def)
  have sb: "string_of_bytes (bytes_of_string ''256'') = ''256''"
    by (rule string_of_bytes_inverse)
  have u: "ParseUint (string_of_bytes (bytes_of_string ''256'')) 10 = Inr 256"
    unfolding sb by (simp add: ParseUint_def digit_value_def cutoff_def)
  note T1 = ParseBlockNumber_forms [of ?C "'' 0X1f ''" ?p False 0 "[]" "[]" 1 "[] :: rat list"]
  note T2 = ParseBlockNumber_forms [of ?C "''Latest''" ?p False 0 "[]" "[]" 1 "[] :: rat list"]
  note T3 = ParseBlockNumber_forms [of ?C "''latests''" ?p False 0 "[]" "[]" 1 "[] :: rat list"]
  have r1: "TrimSpace ?C (ToLower ?C '' 0X1f '') = ''0x'' @ ''1f'' \<and> ''1f'' \<noteq> [] \<and>
      list_all is_hex_digit ''1f'' \<and> hex_value ''1f'' < 2 ^ 64"
    using t1 h1 h2 by simp
  have "ParseBlockNumber ?C '' 0X1f '' = Inr (of_nat (hex_value ''1f''))"
    using T1 [THEN conjunct2, THEN conjunct1] r1 by blast
  then have w1: "ParseBlockNumber ?C '' 0X1f '' = Inr 31"
    unfolding h2 by simp
  have w2: "ParseBlockNumber ?C ''Latest'' = Inr LatestBlockNumber \<and>
            resolveBlockNumber ?C ?p LatestBlockNumber = GetLatestBlockNumber ?C ?p"
    using T2 [THEN conjunct2, THEN conjunct2, THEN conjunct2, THEN conjunct2, THEN conjunct1] t2
    by (rule mp)
  have w2': "GetLatestBlockNumber ?C ?p = Inr 256"
    using T2 [THEN conjunct2, THEN conjunct2, THEN conjunct2, THEN conjunct2, THEN conjunct2,
        THEN conjunct2] g u
    by blast
  have l3: "TrimSpace ?C (ToLower ?C ''latests'') \<notin> {''latest'', ''earliest'', ''pending''}"
    unfolding t3 by simp
  have x3: "\<not> (\<exists>ds. TrimSpace ?C (ToLower ?C ''latests'') = ''0x'' @ ds \<and> ds \<noteq> [] \<and>
      list_all is_hex_digit ds \<and> hex_value ds < 2 ^ 64)"
    unfolding t3 by simp
  have nb: "\<not> (\<exists>bn. ParseBlockNumber ?C ''latests'' = Inr bn)"
    using T3 [THEN conjunct1] l3 x3 by blast
  from T3 [THEN conjunct2, THEN conjunct2, THEN conjunct1] nb
  obtain err where e: "ParseBlockNumber ?C ''latests'' = Inl err"
    "GetBlockByNumber ?C ?p ''latests'' False =
       Inl (RPCErr \<lparr>Code = - 32602, Message = ''invalid block number: '' @ Error_text err\<rparr>)"
    by blast
  have bad: "ParseBlockNumber ?C ''latests'' = Inl (Errorf ''invalid block number: latests'')"
    by (simp add: ParseBlockNumber_def t3 HasPrefix_def)
  from e(1) bad have "err = Errorf ''invalid block number: latests''" by simp
  with e(2) have w3: "GetBlockByNumber ?C ?p ''latests'' False =
     Inl (RPCErr \<lparr>Code = - 32602,
                  Message = ''invalid block number: invalid block number: latests''\<rparr>)"
    by simp
  from w1 w2 w2' bad w3 show ?thesis by simp
qed

text \<open>
  The claim as stated fails on input with white space around a literal: a tab, \<open>latest\<close>
  and a space is accepted, though it is none of the literals in any case and has no
  \<open>0x\<close> prefix.
\<close>

theorem ParseBlockNumber_whitespace_counterexample:
  "ParseBlockNumber ascii_strings (CHR 0x09 # ''latest '') = Inr LatestBlockNumber \<and>
   ToLower ascii_strings (CHR 0x09 # ''latest '') \<noteq> ''latest'' \<and>
   ToLower ascii_strings (CHR 0x09 # ''latest '') \<noteq> ''earliest'' \<and>
   ToLower ascii_strings (CHR 0x09 # ''latest '') \<noteq> ''pending'' \<and>
   \<not> HasPrefix (ToLower ascii_strings (CHR 0x09 # ''latest '')) ''0x''"
proof -
  have l: "ascii_ToLower (CHR 0x09 # ''latest '') = CHR 0x09 # ''latest ''" by code_simp
  have t: "ascii_TrimSpace (CHR 0x09 # ''latest '') = ''latest''" by code_simp
  show ?thesis
    unfolding ParseBlockNumber_def ascii_strings_fields l t
    by (simp add: HasPrefix_def)
qed

subsection \<open>Lookups of absent data\<close>

lemma GetBlock_missing:
  "Get p (''blk:hdr:'' @ show_nat (unat n)) = Inl ErrNotFound \<Longrightarrow> GetBlock C p n = Inl ErrNotFound"
  by (simp add: GetBlock_def GetHeader_def)

lemma GetHeader_missing:
  "Get p (''blk:hdr:'' @ show_nat (unat n)) = Inl ErrNotFound \<Longrightarrow> GetHeader C p n = Inl ErrNotFound"
  by (simp add: GetHeader_def)

lemma reader_index_missing:
  "Get p (''blk:body:'' @ show_nat (unat n)) = Inl ErrNotFound \<Longrightarrow>
   reader_GetTransactionByBlockNumberAndIndex C p n i = Inl ErrNotFound"
  by (simp add: reader_GetTransactionByBlockNumberAndIndex_def)

lemma reader_index_out_of_range:
  "Get p (''blk:body:'' @ show_nat (unat n)) = Inr data \<Longrightarrow> rlp_Body C data = Inr body \<Longrightarrow>
   unat i \<ge> length (body_Transactions body) \<Longrightarrow>
   reader_GetTransactionByBlockNumberAndIndex C p n i = Inl ErrNotFound"
  by (simp add: reader_GetTransactionByBlockNumberAndIndex_def)

lemma reader_index_found:
  "Get p (''blk:body:'' @ show_nat (unat n)) = Inr data \<Longrightarrow> rlp_Body C data = Inr body \<Longrightarrow>
   unat i < length (body_Transactions body) \<Longrightarrow>
   reader_GetTransactionByBlockNumberAndIndex C p n i = Inr (body_Transactions body ! unat i)"
  by (simp add: reader_GetTransactionByBlockNumberAndIndex_def)

lemma GetReceipt_missing:
  "Get p (''tx:lookup:'' @ Hash_Hex h) = Inl ErrNotFound \<Longrightarrow> GetReceipt C p h = Inl ErrNotFound"
  by (simp add: GetReceipt_def GetTransactionLookup_def)

lemma GetReceipt_out_of_range:
  "Get p (''tx:lookup:'' @ Hash_Hex h) = Inr ldata \<Longrightarrow> json_TxLookup C ldata = Inr lookup \<Longrightarrow>
   Get p (''blk:rcpt:'' @ show_nat (unat (lk_BlockNumber lookup))) = Inr rdata \<Longrightarrow>
   rlp_Receipts C rdata = Inr receipts \<Longrightarrow> unat (lk_Index lookup) \<ge> length receipts \<Longrightarrow>
   GetReceipt C p h = Inl ErrNotFound"
  by (simp add: GetReceipt_def GetTransactionLookup_def)

lemma GetReceipt_found:
  "Get p (''tx:lookup:'' @ Hash_Hex h) = Inr ldata \<Longrightarrow> json_TxLookup C ldata = Inr lookup \<Longrightarrow>
   Get p (''blk:rcpt:'' @ show_nat (unat (lk_BlockNumber lookup))) = Inr rdata \<Longrightarrow>
   rlp_Receipts C rdata = Inr receipts \<Longrightarrow> unat (lk_Index lookup) < length receipts \<Longrightarrow>
   GetReceipt C p h = Inr (receipts ! unat (lk_Index lookup), lookup)"
  by (simp add: GetReceipt_def GetTransactionLookup_def)

lemma GetTransaction_missing:
  "Get p (''tx:'' @ Hash_Hex h) = Inl ErrNotFound \<Longrightarrow> GetTransaction C p h = Inl ErrNotFound"
  by (simp add: GetTransaction_def)

lemma null_block:
  "ParseBlockNumber C blockNr = Inr bn \<Longrightarrow> resolveBlockNumber C p bn = Inr n \<Longrightarrow>
   Get p (''blk:hdr:'' @ show_nat (unat n)) = Inl ErrNotFound \<Longrightarrow>
   GetBlockByNumber C p blockNr fullTx = Inr None"
  by (simp add: GetBlockByNumber_def GetBlock_missing)

lemma null_block_no_body:
  "ParseBlockNumber C blockNr = Inr bn \<Longrightarrow> resolveBlockNumber C p bn = Inr n \<Longrightarrow>
   Get p (''blk:hdr:'' @ show_nat (unat n)) = Inr hdata \<Longrightarrow> rlp_Header C hdata = Inr header \<Longrightarrow>
   Get p (''blk:body:'' @ show_nat (unat n)) = Inl ErrNotFound \<Longrightarrow>
   GetBlockByNumber C p blockNr fullTx = Inr None"
  by (simp add: GetBlockByNumber_def GetBlock_def GetHeader_def GetBlockBody_def)

lemma null_receipt_no_receipts:
  "Get p (''tx:lookup:'' @ Hash_Hex h) = Inr ldata \<Longrightarrow> json_TxLookup C ldata = Inr lookup \<Longrightarrow>
   Get p (''blk:rcpt:'' @ show_nat (unat (lk_BlockNumber lookup))) = Inl ErrNotFound \<Longrightarrow>
   GetTransactionReceipt C p h = Inr None"
  by (simp add: GetTransactionReceipt_def GetReceipt_def GetTransactionLookup_def)

lemma null_index_no_body:
  "ParseBlockNumber C blockNr = Inr bn \<Longrightarrow> resolveBlockNumber C p bn = Inr n \<Longrightarrow>
   Get p (''blk:body:'' @ show_nat (unat n)) = Inl ErrNotFound \<Longrightarrow>
   GetTransactionByBlockNumberAndIndex C p blockNr i = Inr None"
  by (simp add: GetTransactionByBlockNumberAndIndex_def reader_index_missing)

lemma null_index_out_of_range:
  "ParseBlockNumber C blockNr = Inr bn \<Longrightarrow> resolveBlockNumber C p bn = Inr n \<Longrightarrow>
   Get p (''blk:body:'' @ show_nat (unat n)) = Inr data \<Longrightarrow> rlp_Body C data = Inr body \<Longrightarrow>
   unat i \<ge> length (body_Transactions body) \<Longrightarrow>
   GetTransactionByBlockNumberAndIndex C p blockNr i = Inr None"
  by (simp add: GetTransactionByBlockNumberAndIndex_def reader_index_out_of_range)

lemma error_index_no_header:
  "ParseBlockNumber C blockNr = Inr bn \<Longrightarrow> resolveBlockNumber C p bn = Inr n \<Longrightarrow>
   Get p (''blk:body:'' @ show_nat (unat n)) = Inr data \<Longrightarrow> rlp_Body C data = Inr body \<Longrightarrow>
   unat i < length (body_Transactions body) \<Longrightarrow>
   Get p (''blk:hdr:'' @ show_nat (unat n)) = Inl ErrNotFound \<Longrightarrow>
   GetTransactionByBlockNumberAndIndex C p blockNr i =
     Inl (RPCErr \<lparr>Code = - 32603, Message = ''failed to get block header: not found''\<rparr>)"
  by (simp add: GetTransactionByBlockNumberAndIndex_def reader_index_found GetHeader_missing
      ErrCodeInternal_def)

lemma error_unresolved:
  "ParseBlockNumber C blockNr = Inr bn \<Longrightarrow> resolveBlockNumber C p bn = Inl err \<Longrightarrow>
   GetBlockByNumber C p blockNr fullTx = Inl err \<and>
   GetTransactionByBlockNumberAndIndex C p blockNr i = Inl err"
  by (simp add: GetBlockByNumber_def GetTransactionByBlockNumberAndIndex_def)

lemma null_receipt_out_of_range:
  "Get p (''tx:lookup:'' @ Hash_Hex h) = Inr ldata \<Longrightarrow> json_TxLookup C ldata = Inr lookup \<Longrightarrow>
   Get p (''blk:rcpt:'' @ show_nat (unat (lk_BlockNumber lookup))) = Inr rdata \<Longrightarrow>
   rlp_Receipts C rdata = Inr receipts \<Longrightarrow> unat (lk_Index lookup) \<ge> length receipts \<Longrightarrow>
   GetTransactionReceipt C p h = Inr None"
  by (simp add: GetTransactionReceipt_def GetReceipt_out_of_range)

lemma error_receipt_no_tx:
  "Get p (''tx:lookup:'' @ Hash_Hex h) = Inr ldata \<Longrightarrow> json_TxLookup C ldata = Inr lookup \<Longrightarrow>
   Get p (''blk:rcpt:'' @ show_nat (unat (lk_BlockNumber lookup))) = Inr rdata \<Longrightarrow>
   rlp_Receipts C rdata = Inr receipts \<Longrightarrow> unat (lk_Index lookup) < length receipts \<Longrightarrow>
   Get p (''tx:'' @ Hash_Hex h) = Inl ErrNotFound \<Longrightarrow>
   GetTransactionReceipt C p h =
     Inl (RPCErr \<lparr>Code = - 32603, Message = ''failed to get transaction: not found''\<rparr>)"
  by (simp add: GetTransactionReceipt_def GetReceipt_found GetTransaction_missing ErrCodeInternal_def)

text \<open>
  C8 (as amended). These lookups answer \<open>null\<close> with no error: a block by number
  whose tag parses and resolves to a height for which no header is stored, or a header
  and no body; a transaction by hash for which no transaction record is stored; a
  receipt for which no lookup record is stored, or no receipts of the block the lookup
  names, or whose lookup points beyond those receipts; and a transaction by block number
  and index whose tag parses and resolves to a height for which no body is stored, or
  for which the body is stored and the index is out of range (no error -32002). These
  are errors instead: when the tag parses but does not resolve, as \<open>latest\<close> does
  with nothing stored under \<open>idx:latest\<close>, the error of the resolution is returned as
  it is; a transaction that is found by its index in a block whose header is not
  stored is the error -32603; and a receipt that is found while the transaction record
  is not stored is the error -32603.
\<close>

theorem not_found_is_null:
  "(ParseBlockNumber C blockNr = Inr bn \<longrightarrow>
      (\<forall>err. resolveBlockNumber C p bn = Inl err \<longrightarrow>
         GetBlockByNumber C p blockNr fullTx = Inl err \<and>
         GetTransactionByBlockNumberAndIndex C p blockNr i = Inl err) \<and>
      (resolveBlockNumber C p bn = Inr n \<longrightarrow>
         (Get p (''blk:hdr:'' @ show_nat (unat n)) = Inl ErrNotFound \<longrightarrow>
            GetBlockByNumber C p blockNr fullTx = Inr None) \<and>
         (\<forall>hdata header. Get p (''blk:hdr:'' @ show_nat (unat n)) = Inr hdata \<and>
              rlp_Header C hdata = Inr header \<and>
              Get p (''blk:body:'' @ show_nat (unat n)) = Inl ErrNotFound \<longrightarrow>
            GetBlockByNumber C p blockNr fullTx = Inr None) \<and>
         (Get p (''blk:body:'' @ show_nat (unat n)) = Inl ErrNotFound \<longrightarrow>
            GetTransactionByBlockNumberAndIndex C p blockNr i = Inr None) \<and>
         (\<forall>data body. Get p (''blk:body:'' @ show_nat (unat n)) = Inr data \<and> rlp_Body C data = Inr body \<longrightarrow>
            (unat i \<ge> length (body_Transactions body) \<longrightarrow>
               GetTransactionByBlockNumberAndIndex C p blockNr i = Inr None) \<and>
            (unat i < length (body_Transactions body) \<and>
               Get p (''blk:hdr:'' @ show_nat (unat n)) = Inl ErrNotFound \<longrightarrow>
               GetTransactionByBlockNumberAndIndex C p blockNr i =
                 Inl (RPCErr \<lparr>Code = - 32603,
                              Message = ''failed to get block header: not found''\<rparr>))))) \<and>
   (Get p (''tx:'' @ Hash_Hex h) = Inl ErrNotFound \<longrightarrow> GetTransactionByHash C p h = Inr None) \<and>
   (Get p (''tx:lookup:'' @ Hash_Hex h) = Inl ErrNotFound \<longrightarrow> GetTransactionReceipt C p h = Inr None) \<and>
   (\<forall>ldata lookup. Get p (''tx:lookup:'' @ Hash_Hex h) = Inr ldata \<and> json_TxLookup C ldata = Inr lookup \<and>
      Get p (''blk:rcpt:'' @ show_nat (unat (lk_BlockNumber lookup))) = Inl ErrNotFound \<longrightarrow>
      GetTransactionReceipt C p h = Inr None) \<and>
   (\<forall>ldata lookup rdata receipts.
      Get p (''tx:lookup:'' @ Hash_Hex h) = Inr ldata \<and> json_TxLookup C ldata = Inr lookup \<and>
      Get p (''blk:rcpt:'' @ show_nat (unat (lk_BlockNumber lookup))) = Inr rdata \<and>
      rlp_Receipts C rdata = Inr receipts \<longrightarrow>
      (unat (lk_Index lookup) \<ge> length receipts \<longrightarrow> GetTransactionReceipt C p h = Inr None) \<and>
      (unat (lk_Index lookup) < length receipts \<and> Get p (''tx:'' @ Hash_Hex h) = Inl ErrNotFound \<longrightarrow>
         GetTransactionReceipt C p h =
           Inl (RPCErr \<lparr>Code = - 32603, Message = ''failed to get transaction: not found''\<rparr>)))"
proof -
  have unres: "ParseBlockNumber C blockNr = Inr bn \<longrightarrow>
      (\<forall>err. resolveBlockNumber C p bn = Inl err \<longrightarrow>
         GetBlockByNumber C p blockNr fullTx = Inl err \<and>
         GetTransactionByBlockNumberAndIndex C p blockNr i = Inl err)"
    using error_unresolved by blast
  have blk: "ParseBlockNumber C blockNr = Inr bn \<longrightarrow> resolveBlockNumber C p bn = Inr n \<longrightarrow>
      (Get p (''blk:hdr:'' @ show_nat (unat n)) = Inl ErrNotFound \<longrightarrow>
         GetBlockByNumber C p blockNr fullTx = Inr None)"
    using null_block by blast
  have blk2: "ParseBlockNumber C blockNr = Inr bn \<longrightarrow> resolveBlockNumber C p bn = Inr n \<longrightarrow>
      (\<forall>hdata header. Get p (''blk:hdr:'' @ show_nat (unat n)) = Inr hdata \<and>
           rlp_Header C hdata = Inr header \<and>
           Get p (''blk:body:'' @ show_nat (unat n)) = Inl ErrNotFound \<longrightarrow>
         GetBlockByNumber C p blockNr fullTx = Inr None)"
    using null_block_no_body by blast
  have rc0: "\<forall>ldata lookup. Get p (''tx:lookup:'' @ Hash_Hex h) = Inr ldata \<and>
      json_TxLookup C ldata = Inr lookup \<and>
      Get p (''blk:rcpt:'' @ show_nat (unat (lk_BlockNumber lookup))) = Inl ErrNotFound \<longrightarrow>
      GetTransactionReceipt C p h = Inr None"
    using null_receipt_no_receipts by blast
  have idx1: "ParseBlockNumber C blockNr = Inr bn \<longrightarrow> resolveBlockNumber C p bn = Inr n \<longrightarrow>
      (Get p (''blk:body:'' @ show_nat (unat n)) = Inl ErrNotFound \<longrightarrow>
         GetTransactionByBlockNumberAndIndex C p blockNr i = Inr None)"
    using null_index_no_body by blast
  have idx2: "ParseBlockNumber C blockNr = Inr bn \<longrightarrow> resolveBlockNumber C p bn = Inr n \<longrightarrow>
      (\<forall>data body. Get p (''blk:body:'' @ show_nat (unat n)) = Inr data \<and> rlp_Body C data = Inr body \<longrightarrow>
         (unat i \<ge> length (body_Transactions body) \<longrightarrow>
            GetTransactionByBlockNumberAndIndex C p blockNr i = Inr None))"
    using null_index_out_of_range by blast
  have idx3: "ParseBlockNumber C blockNr = Inr bn \<longrightarrow> resolveBlockNumber C p bn = Inr n \<longrightarrow>
      (\<forall>data body. Get p (''blk:body:'' @ show_nat (unat n)) = Inr data \<and> rlp_Body C data = Inr body \<longrightarrow>
         (unat i < length (body_Transactions body) \<and>
            Get p (''blk:hdr:'' @ show_nat (unat n)) = Inl ErrNotFound \<longrightarrow>
            GetTransactionByBlockNumberAndIndex C p blockNr i =
              Inl (RPCErr \<lparr>Code = - 32603, Message = ''failed to get block header: not found''\<rparr>)))"
    using error_index_no_header by blast
  have tx: "Get p (''tx:'' @ Hash_Hex h) = Inl ErrNotFound \<longrightarrow> GetTransactionByHash C p h = Inr None"
    by (simp add: GetTransactionByHash_def GetTransaction_def)
  have rc1: "Get p (''tx:lookup:'' @ Hash_Hex h) = Inl ErrNotFound \<longrightarrow>
      GetTransactionReceipt C p h = Inr None"
    by (simp add: GetTransactionReceipt_def GetReceipt_missing)
  have rc2: "\<forall>ldata lookup rdata receipts.
      Get p (''tx:lookup:'' @ Hash_Hex h) = Inr ldata \<and> json_TxLookup C ldata = Inr lookup \<and>
      Get p (''blk:rcpt:'' @ show_nat (unat (lk_BlockNumber lookup))) = Inr rdata \<and>
      rlp_Receipts C rdata = Inr receipts \<longrightarrow>
      (unat (lk_Index lookup) \<ge> length receipts \<longrightarrow> GetTransactionReceipt C p h = Inr None)"
    using null_receipt_out_of_range by blast
  have rc3: "\<forall>ldata lookup rdata receipts.
      Get p (''tx:lookup:'' @ Hash_Hex h) = Inr ldata \<and> json_TxLookup C ldata = Inr lookup \<and>
      Get p (''blk:rcpt:'' @ show_nat (unat (lk_BlockNumber lookup))) = Inr rdata \<and>
      rlp_Receipts C rdata = Inr receipts \<longrightarrow>
      (unat (lk_Index lookup) < length receipts \<and> Get p (''tx:'' @ Hash_Hex h) = Inl ErrNotFound \<longrightarrow>
         GetTransactionReceipt C p h =
           Inl (RPCErr \<lparr>Code = - 32603, Message = ''failed to get transaction: not found''\<rparr>))"
    using error_receipt_no_tx by blast
  from unres blk blk2 idx1 idx2 idx3 have blocks:
    "ParseBlockNumber C blockNr = Inr bn \<longrightarrow>
      (\<forall>err. resolveBlockNumber C p bn = Inl err \<longrightarrow>
         GetBlockByNumber C p blockNr fullTx = Inl err \<and>
         GetTransactionByBlockNumberAndIndex C p blockNr i = Inl err) \<and>
      (resolveBlockNumber C p bn = Inr n \<longrightarrow>
         (Get p (''blk:hdr:'' @ show_nat (unat n)) = Inl ErrNotFound \<longrightarrow>
            GetBlockByNumber C p blockNr fullTx = Inr None) \<and>
         (\<forall>hdata header. Get p (''blk:hdr:'' @ show_nat (unat n)) = Inr hdata \<and>
              rlp_Header C hdata = Inr header \<and>
              Get p (''blk:body:'' @ show_nat (unat n)) = Inl ErrNotFound \<longrightarrow>
            GetBlockByNumber C p blockNr fullTx = Inr None) \<and>
         (Get p (''blk:body:'' @ show_nat (unat n)) = Inl ErrNotFound \<longrightarrow>
            GetTransactionByBlockNumberAndIndex C p blockNr i = Inr None) \<and>
         (\<forall>data body. Get p (''blk:body:'' @ show_nat (unat n)) = Inr data \<and> rlp_Body C data = Inr body \<longrightarrow>
            (unat i \<ge> length (body_Transactions body) \<longrightarrow>
               GetTransactionByBlockNumberAndIndex C p blockNr i = Inr None) \<and>
            (unat i < length (body_Transactions body) \<and>
               Get p (''blk:hdr:'' @ show_nat (unat n)) = Inl ErrNotFound \<longrightarrow>
               GetTransactionByBlockNumberAndIndex C p blockNr i =
                 Inl (RPCErr \<lparr>Code = - 32603,
                              Message = ''failed to get block header: not found''\<rparr>))))"
    by blast
  from rc2 rc3 have receipts:
    "\<forall>ldata lookup rdata receipts.
      Get p (''tx:lookup:'' @ Hash_Hex h) = Inr ldata \<and> json_TxLookup C ldata = Inr lookup \<and>
      Get p (''blk:rcpt:'' @ show_nat (unat (lk_BlockNumber lookup))) = Inr rdata \<and>
      rlp_Receipts C rdata = Inr receipts \<longrightarrow>
      (unat (lk_Index lookup) \<ge> length receipts \<longrightarrow> GetTransactionReceipt C p h = Inr None) \<and>
      (unat (lk_Index lookup) < length receipts \<and> Get p (''tx:'' @ Hash_Hex h) = Inl ErrNotFound \<longrightarrow>
         GetTransactionReceipt C p h =
           Inl (RPCErr \<lparr>Code = - 32603, Message = ''failed to get transaction: not found''\<rparr>))"
    by blast
  from blocks tx rc1 rc0 receipts show ?thesis by (intro conjI)
qed

lemma show_nat_5: "show_nat 5 = ''5''"
  by (simp add: show_nat.simps [of 5] hex_digit_def)

lemma parse_0x5: "ParseBlockNumber (example_codec tx acc) ''0x5'' = Inr 5"
  by (simp add: ParseBlockNumber_def example_strings ascii_TrimSpace_def ascii_ToLower_def
      to_lower_char_def is_space_def HasPrefix_def ParseUint_def digit_value_def cutoff_def)

lemma parse_latest: "ParseBlockNumber (example_codec tx acc) ''latest'' = Inr LatestBlockNumber"
proof -
  have "ascii_TrimSpace (ascii_ToLower ''latest'') = ''latest''" by code_simp
  then show ?thesis by (simp add: ParseBlockNumber_def example_strings)
qed

lemma resolve_5: "resolveBlockNumber S p 5 = Inr 5"
  by (simp add: resolveBlockNumber_def LatestBlockNumber_def PendingBlockNumber_def
      EarliestBlockNumber_def ToUint64_def)

lemma resolve_latest_empty: "resolveBlockNumber S (store_of []) LatestBlockNumber = Inl ErrNotFound"
  by (simp add: resolveBlockNumber_def GetLatestBlockNumber_def Get_def store_of_def)

text \<open>
  The claim as stated fails: block 5 is stored with one transaction, and the request
  for index 3 of it answers \<open>null\<close>, not an error.
\<close>

theorem index_out_of_range_counterexample:
  "Get (store_of [(''blk:body:5'', [2]), (''blk:hdr:5'', [3])]) ''blk:body:5'' = Inr [2] \<and>
   rlp_Body (example_codec example_tx example_account) [2] =
     Inr \<lparr>body_Transactions = [example_tx], body_Uncles = []\<rparr> \<and>
   GetTransactionByBlockNumberAndIndex (example_codec example_tx example_account)
     (store_of [(''blk:body:5'', [2]), (''blk:hdr:5'', [3])]) ''0x5'' 3 = Inr None"
proof -
  let ?C = "example_codec example_tx example_account"
  let ?p = "store_of [(''blk:body:5'', [2]), (''blk:hdr:5'', [3])]"
  have g: "Get ?p ''blk:body:5'' = Inr [2]"
    by (simp add: Get_def store_of_def)
  have b: "rlp_Body ?C [2] = Inr \<lparr>body_Transactions = [example_tx], body_Uncles = []\<rparr>"
    by (simp add: example_codec_def)
  have g': "Get ?p (''blk:body:'' @ show_nat (unat (5::u64))) = Inr [2]"
    using g by (simp add: show_nat_5)
  have o: "unat (3::u64) \<ge> length (body_Transactions \<lparr>body_Transactions = [example_tx], body_Uncles = []\<rparr>)"
    by simp
  have "GetTransactionByBlockNumberAndIndex ?C ?p ''0x5'' 3 = Inr None"
    by (rule null_index_out_of_range [OF parse_0x5 resolve_5 g' b o])
  with g b show ?thesis by simp
qed

theorem not_found_is_null_witness:
  "GetBlockByNumber (example_codec example_tx example_account)
     (store_of [(''blk:body:5'', [2])]) ''0x5'' True = Inr None \<and>
   GetTransactionByBlockNumberAndIndex (example_codec example_tx example_account)
     (store_of [(''blk:hdr:5'', [3])]) ''0x5'' 0 = Inr None \<and>
   GetTransactionByBlockNumberAndIndex (example_codec example_tx example_account)
     (store_of [(''blk:body:5'', [2]), (''blk:hdr:5'', [3])]) ''0x5'' 1 = Inr None \<and>
   GetTransactionByBlockNumberAndIndex (example_codec example_tx example_account)
     (store_of [(''blk:body:5'', [2])]) ''0x5'' 0 =
     Inl (RPCErr \<lparr>Code = - 32603, Message = ''failed to get block header: not found''\<rparr>) \<and>
   GetBlockByNumber (example_codec example_tx example_account) (store_of []) ''latest'' True =
     Inl ErrNotFound \<and>
   GetBlockByNumber (example_codec example_tx example_account)
     (store_of [(''blk:hdr:5'', [3])]) ''0x5'' True = Inr None \<and>
   GetTransactionByHash (example_codec example_tx example_account) (store_of []) [0xAB] = Inr None \<and>
   GetTransactionReceipt (example_codec example_tx example_account) (store_of []) [0xAB] = Inr None \<and>
   GetTransactionReceipt (example_codec example_tx example_account)
     (store_of [(''tx:lookup:0xab'', [5])]) [0xAB] = Inr None \<and>
   GetTransactionReceipt (example_codec example_tx example_account)
     (store_of [(''tx:lookup:0xab'', [5]), (''blk:rcpt:5'', [7])]) [0xAB] = Inr None \<and>
   GetTransactionReceipt (example_codec example_tx example_account)
     (store_of [(''tx:lookup:0xab'', [5]), (''blk:rcpt:5'', [6])]) [0xAB] =
     Inl (RPCErr \<lparr>Code = - 32603, Message = ''failed to get transaction: not found''\<rparr>)"
proof -
  let ?C = "example_codec example_tx example_account"
  let ?p1 = "store_of [(''blk:body:5'', [2])]"
  let ?p2 = "store_of [(''blk:hdr:5'', [3])]"
  let ?p3 = "store_of [(''blk:body:5'', [2]), (''blk:hdr:5'', [3])]"
  let ?p6 = "store_of [(''tx:lookup:0xab'', [5]), (''blk:rcpt:5'', [7])]"
  let ?p7 = "store_of [(''tx:lookup:0xab'', [5]), (''blk:rcpt:5'', [6])]"
  have hx: "Hash_Hex [0xAB] = ''0xab''"
    by (simp add: Hash_Hex_def hex_bytes_def hex_byte_def hex_digit_def)
  have g1: "Get ?p1 (''blk:hdr:'' @ show_nat (unat (5::u64))) = Inl ErrNotFound"
    by (simp add: show_nat_5 Get_def store_of_def)
  have g1b: "Get ?p1 (''blk:body:'' @ show_nat (unat (5::u64))) = Inr [2]"
    by (simp add: show_nat_5 Get_def store_of_def)
  have g2: "Get ?p2 (''blk:body:'' @ show_nat (unat (5::u64))) = Inl ErrNotFound"
    by (simp add: show_nat_5 Get_def store_of_def)
  have g3: "Get ?p3 (''blk:body:'' @ show_nat (unat (5::u64))) = Inr [2]"
    by (simp add: show_nat_5 Get_def store_of_def)
  have b3: "rlp_Body ?C [2] = Inr \<lparr>body_Transactions = [example_tx], body_Uncles = []\<rparr>"
    by (simp add: example_codec_def)
  have o3: "unat (1::u64) \<ge> length (body_Transactions \<lparr>body_Transactions = [example_tx], body_Uncles = []\<rparr>)"
    by simp
  have o1: "unat (0::u64) < length (body_Transactions \<lparr>body_Transactions = [example_tx], body_Uncles = []\<rparr>)"
    by simp
  have g4: "Get (store_of []) (''tx:'' @ Hash_Hex [0xAB]) = Inl ErrNotFound"
    by (simp add: Get_def store_of_def)
  have g5: "Get (store_of []) (''tx:lookup:'' @ Hash_Hex [0xAB]) = Inl ErrNotFound"
    by (simp add: Get_def store_of_def)
  have l6: "Get ?p6 (''tx:lookup:'' @ Hash_Hex [0xAB]) = Inr [5]"
       "Get ?p7 (''tx:lookup:'' @ Hash_Hex [0xAB]) = Inr [5]"
    by (simp_all add: hx Get_def store_of_def)
  have lk: "json_TxLookup ?C [5] = Inr example_lookup"
    by (simp add: example_codec_def)
  have r6: "Get ?p6 (''blk:rcpt:'' @ show_nat (unat (lk_BlockNumber example_lookup))) = Inr [7]"
       "Get ?p7 (''blk:rcpt:'' @ show_nat (unat (lk_BlockNumber example_lookup))) = Inr [6]"
    by (simp_all add: example_lookup_def show_nat_5 Get_def store_of_def)
  have d6: "rlp_Receipts ?C [7] = Inr []" "rlp_Receipts ?C [6] = Inr [example_receipt]"
    by (simp_all add: example_codec_def)
  have i6: "unat (lk_Index example_lookup) \<ge> length ([] :: Receipt list)"
       "unat (lk_Index example_lookup) < length [example_receipt]"
    by (simp_all add: example_lookup_def)
  have t7: "Get ?p7 (''tx:'' @ Hash_Hex [0xAB]) = Inl ErrNotFound"
    by (simp add: hx Get_def store_of_def)
  let ?p8 = "store_of [(''tx:lookup:0xab'', [5])]"
  have g2h: "Get ?p2 (''blk:hdr:'' @ show_nat (unat (5::u64))) = Inr [3]"
    by (simp add: show_nat_5 Get_def store_of_def)
  have h2: "rlp_Header ?C [3] = Inr \<lparr>hdr_Number = 5, hdr_Hash = replicate 32 0xCD\<rparr>"
    by (simp add: example_codec_def)
  have l8: "Get ?p8 (''tx:lookup:'' @ Hash_Hex [0xAB]) = Inr [5]"
    by (simp add: hx Get_def store_of_def)
  have r8: "Get ?p8 (''blk:rcpt:'' @ show_nat (unat (lk_BlockNumber example_lookup))) = Inl ErrNotFound"
    by (simp add: example_lookup_def show_nat_5 Get_def store_of_def)
  have k: "ParseBlockNumber ?C ''0x5'' = Inr 5" by (rule parse_0x5)
  have r: "resolveBlockNumber ?C p 5 = Inr 5" for p by (rule resolve_5)
  have kl: "ParseBlockNumber ?C ''latest'' = Inr LatestBlockNumber" by (rule parse_latest)
  have rl: "resolveBlockNumber ?C (store_of []) LatestBlockNumber = Inl ErrNotFound"
    by (rule resolve_latest_empty)
  have w1: "GetBlockByNumber ?C ?p1 ''0x5'' True = Inr None"
    using not_found_is_null [of ?C "''0x5''" 5 ?p1 True 0 5 "[0xAB]"] k r [of ?p1] g1 by blast
  have w2: "GetTransactionByBlockNumberAndIndex ?C ?p2 ''0x5'' 0 = Inr None"
    using not_found_is_null [of ?C "''0x5''" 5 ?p2 True 0 5 "[0xAB]"] k r [of ?p2] g2 by blast
  have w3: "GetTransactionByBlockNumberAndIndex ?C ?p3 ''0x5'' 1 = Inr None"
    using not_found_is_null [of ?C "''0x5''" 5 ?p3 True 1 5 "[0xAB]"] k r [of ?p3] g3 b3 o3 by blast
  have w3b: "GetTransactionByBlockNumberAndIndex ?C ?p1 ''0x5'' 0 =
      Inl (RPCErr \<lparr>Code = - 32603, Message = ''failed to get block header: not found''\<rparr>)"
    using not_found_is_null [of ?C "''0x5''" 5 ?p1 True 0 5 "[0xAB]"] k r [of ?p1] g1b b3 o1 g1 by blast
  have w3c: "GetBlockByNumber ?C (store_of []) ''latest'' True = Inl ErrNotFound"
    using not_found_is_null [of ?C "''latest''" LatestBlockNumber "store_of []" True 0 5 "[0xAB]"] kl rl
    by blast
  have w3d: "GetBlockByNumber ?C ?p2 ''0x5'' True = Inr None"
    using not_found_is_null [of ?C "''0x5''" 5 ?p2 True 0 5 "[0xAB]"] k r [of ?p2] g2h h2 g2 by blast
  have w5b: "GetTransactionReceipt ?C ?p8 [0xAB] = Inr None"
    using not_found_is_null [of ?C "''0x5''" 5 ?p8 True 1 5 "[0xAB]"] l8 lk r8 by blast
  have w4: "GetTransactionByHash ?C (store_of []) [0xAB] = Inr None"
    using not_found_is_null [of ?C "''0x5''" 5 "store_of []" True 1 5 "[0xAB]"] g4 by blast
  have w5: "GetTransactionReceipt ?C (store_of []) [0xAB] = Inr None"
    using not_found_is_null [of ?C "''0x5''" 5 "store_of []" True 1 5 "[0xAB]"] g5 by blast
  have w6: "GetTransactionReceipt ?C ?p6 [0xAB] = Inr None"
    using not_found_is_null [of ?C "''0x5''" 5 ?p6 True 1 5 "[0xAB]"] l6(1) lk r6(1) d6(1) i6(1)
    by blast
  have w7: "GetTransactionReceipt ?C ?p7 [0xAB] =
      Inl (RPCErr \<lparr>Code = - 32603, Message = ''failed to get transaction: not found''\<rparr>)"
    using not_found_is_null [of ?C "''0x5''" 5 ?p7 True 1 5 "[0xAB]"] l6(2) lk r6(2) d6(2) i6(2) t7
    by blast
  from w1 w2 w3 w3b w3c w3d w4 w5 w5b w6 w7 show ?thesis by simp
qed

subsection \<open>Fee history\<close>

lemma unat_plus_one_small:
  fixes x :: u64
  assumes "unat x \<le> 1024"
  shows "unat (x + 1) = unat x + 1"
proof -
  have "unat x + unat (1::u64) < 2 ^ LENGTH(64)" using assms by simp
  then have "unat (x + 1) = unat x + unat (1::u64)" by (simp only: unat_add_lem [THEN iffD1])
  then show ?thesis by simp
qed

lemma count_words:
  fixes c1 e :: u64
  assumes nz: "c1 \<noteq> 0" and le: "\<not> c1 > 1024"
  shows "unat (if e \<ge> c1 - 1 then c1 else e + 1) = min (unat c1) (unat e + 1)"
proof -
  have c_le: "unat c1 \<le> 1024"
    using le by (simp add: word_less_nat_alt not_less)
  have "unat c1 \<noteq> 0" using nz by (simp add: unat_eq_0)
  then have c_pos: "1 \<le> unat c1" by arith
  have one_le: "1 \<le> c1" using c_pos by (simp add: word_le_nat_alt)
  have sub: "unat (c1 - 1) = unat c1 - 1"
    using one_le by (simp add: unat_sub)
  show ?thesis
  proof (cases "e \<ge> c1 - 1")
    case True
    then have "unat c1 - 1 \<le> unat e" by (simp add: word_le_nat_alt sub)
    with True c_pos show ?thesis by simp
  next
    case False
    then have lt: "unat e < unat c1 - 1" by (simp add: word_le_nat_alt sub not_le)
    then have "unat e \<le> 1024" using c_le by simp
    then have "unat (e + 1) = unat e + 1" by (rule unat_plus_one_small)
    with False lt show ?thesis by simp
  qed
qed


lemma fee_end:
  assumes "resolveBlockNumber S p bn = Inr e"
  shows "(if bn = LatestBlockNumber \<or> bn = PendingBlockNumber then
                   (case GetLatestBlockNumber S p of
                      Inl err \<Rightarrow>
                        Inl (RPCErr \<lparr>Code = ErrCodeInternal,
                                     Message = ''failed to get latest block: '' @ Error_text err\<rparr>)
                    | Inr e \<Rightarrow> Inr e)
                 else if bn = EarliestBlockNumber then Inr 0
                 else
                   (case ToUint64 bn of
                      Inl err \<Rightarrow>
                        Inl (RPCErr \<lparr>Code = ErrCodeInvalidParams,
                                     Message = ''invalid block number: '' @ Error_text err\<rparr>)
                    | Inr e \<Rightarrow> Inr e)) = Inr e"
proof (cases "bn = LatestBlockNumber \<or> bn = PendingBlockNumber")
  case True
  with assms show ?thesis by (simp add: resolveBlockNumber_def)
next
  case nl: False
  show ?thesis
  proof (cases "bn = EarliestBlockNumber")
    case True
    with assms nl show ?thesis by (simp add: resolveBlockNumber_def)
  next
    case False
    with assms nl show ?thesis by (simp add: resolveBlockNumber_def)
  qed
qed


lemma count1_gt: "(if (bc::u64) = 0 then 1 else bc) > 1024 \<longleftrightarrow> bc > 1024"
  by (simp add: word_less_nat_alt)

lemma FeeHistory_too_large:
  assumes "ParseBlockNumber S lastBlock = Inr bn" and "resolveBlockNumber S p bn = Inr endBlock"
    and "blockCount > 1024"
  shows "FeeHistory S p blockCount lastBlock ps =
           Inl (RPCErr \<lparr>Code = - 32602, Message = ''block count too large (max 1024)''\<rparr>)"
proof -
  have c: "(if blockCount = 0 then 1 else blockCount) > 1024" using assms(3) by (simp only: count1_gt)
  show ?thesis
    unfolding FeeHistory_def
    apply (simp only: assms(1) sum.case fee_end [OF assms(2)] Let_def c if_True)
    apply (simp only: ErrCodeInvalidParams_def)
    done
qed

lemma FeeHistory_result:
  assumes "ParseBlockNumber S lastBlock = Inr bn" and "resolveBlockNumber S p bn = Inr endBlock"
    and "\<not> blockCount > 1024"
  shows "\<exists>r. FeeHistory S p blockCount lastBlock ps = Inr r \<and>
           length (BaseFeePerGas r) = effective_count blockCount endBlock + 1 \<and>
           length (GasUsedRatio r) = effective_count blockCount endBlock \<and>
           (ps \<noteq> [] \<longrightarrow> length (Reward r) = effective_count blockCount endBlock \<and>
              (\<forall>row \<in> set (Reward r). length row = length ps))"
proof -
  define c1 where "c1 = (if blockCount = 0 then 1 else blockCount)"
  have nz: "c1 \<noteq> 0" by (simp add: c1_def)
  have le: "\<not> c1 > 1024" using assms(3) unfolding c1_def count1_gt .
  define count where "count = (if endBlock \<ge> c1 - 1 then c1 else endBlock + 1)"
  have uc1: "unat c1 = (if blockCount = 0 then 1 else unat blockCount)" by (simp add: c1_def)
  have cnt: "unat count = effective_count blockCount endBlock"
    unfolding count_def effective_count_def using count_words [OF nz le, of endBlock] uc1 by simp
  have "effective_count blockCount endBlock \<le> unat c1"
    unfolding effective_count_def uc1 by simp
  also have "unat c1 \<le> 1024" using le by (simp add: word_less_nat_alt not_less)
  finally have "unat count \<le> 1024" using cnt by simp
  then have cnt1: "unat (count + 1) = effective_count blockCount endBlock + 1"
    using unat_plus_one_small [of count] cnt by simp
  have "FeeHistory S p blockCount lastBlock ps =
      Inr \<lparr>OldestBlock = sint (if endBlock \<ge> c1 - 1 then endBlock - c1 + 1 else 0),
           BaseFeePerGas = replicate (unat (count + 1)) 5000000000,
           GasUsedRatio = replicate (unat count) (1 / 2),
           Reward = (if length ps > 0 then replicate (unat count) (replicate (length ps) 1000000000)
                     else [])\<rparr>"
    unfolding FeeHistory_def
    using le
    by (simp only: assms(1) sum.case fee_end [OF assms(2)] Let_def c1_def [symmetric]
        count_def [symmetric] if_False)
  then show ?thesis
    by (simp add: cnt cnt1)
qed

text \<open>
  C2 (as amended). When \<open>lastBlock\<close> parses and resolves to the height \<open>endBlock\<close>:
  a count above 1024 fails with invalid params (-32602); otherwise the call succeeds,
  and with the effective count \<open>c\<close>, which is the requested count (1 when 0 is
  asked for) capped at \<open>endBlock + 1\<close>, \<open>baseFeePerGas\<close> has length \<open>c + 1\<close>,
  \<open>gasUsedRatio\<close> has length \<open>c\<close>, and for non-empty percentiles the reward matrix
  has \<open>c\<close> rows of one entry per percentile.
\<close>

theorem FeeHistory_shape:
  assumes "ParseBlockNumber S lastBlock = Inr bn" and "resolveBlockNumber S p bn = Inr endBlock"
  shows
    "(blockCount > 1024 \<longrightarrow>
        FeeHistory S p blockCount lastBlock ps =
          Inl (RPCErr \<lparr>Code = - 32602, Message = ''block count too large (max 1024)''\<rparr>)) \<and>
     (\<not> blockCount > 1024 \<longrightarrow>
        (\<exists>r. FeeHistory S p blockCount lastBlock ps = Inr r \<and>
           length (BaseFeePerGas r) = effective_count blockCount endBlock + 1 \<and>
           length (GasUsedRatio r) = effective_count blockCount endBlock \<and>
           (ps \<noteq> [] \<longrightarrow> length (Reward r) = effective_count blockCount endBlock \<and>
              (\<forall>row \<in> set (Reward r). length row = length ps))))"
  using FeeHistory_too_large [OF assms] FeeHistory_result [OF assms] by blast


lemma parse_0x5_ascii: "ParseBlockNumber ascii_strings ''0x5'' = Inr 5"
  by (simp add: ParseBlockNumber_def ascii_strings_fields ascii_TrimSpace_def ascii_ToLower_def
      to_lower_char_def is_space_def HasPrefix_def ParseUint_def digit_value_def cutoff_def)

lemma parse_0x1_ascii: "ParseBlockNumber ascii_strings ''0x1'' = Inr 1"
  by (simp add: ParseBlockNumber_def ascii_strings_fields ascii_TrimSpace_def ascii_ToLower_def
      to_lower_char_def is_space_def HasPrefix_def ParseUint_def digit_value_def cutoff_def)

theorem FeeHistory_shape_witness:
  "ParseBlockNumber ascii_strings ''0x5'' = Inr 5 \<and> resolveBlockNumber ascii_strings (store_of []) 5 = Inr 5 \<and>
   FeeHistory ascii_strings (store_of []) 2000 ''0x5'' [25 :: rat] =
     Inl (RPCErr \<lparr>Code = - 32602, Message = ''block count too large (max 1024)''\<rparr>) \<and>
   (\<exists>r. FeeHistory ascii_strings (store_of []) 3 ''0x5'' [25, 75 :: rat] = Inr r \<and>
        length (BaseFeePerGas r) = 4 \<and> length (GasUsedRatio r) = 3 \<and>
        map length (Reward r) = [2, 2, 2])"
proof -
  have h1: "ParseBlockNumber ascii_strings ''0x5'' = Inr 5" by (rule parse_0x5_ascii)
  have h2: "resolveBlockNumber ascii_strings (store_of []) 5 = Inr 5" by (rule resolve_5)
  have big: "(2000 :: u64) > 1024" by simp
  have small: "\<not> (3 :: u64) > 1024" by simp
  have ec: "effective_count 3 5 = 3" by (simp add: effective_count_def)
  have ne: "[25, 75 :: rat] \<noteq> []" by simp
  have w1: "FeeHistory ascii_strings (store_of []) 2000 ''0x5'' [25 :: rat] =
     Inl (RPCErr \<lparr>Code = - 32602, Message = ''block count too large (max 1024)''\<rparr>)"
    using FeeHistory_shape [OF h1 h2, of 2000 "[25 :: rat]"] big by blast
  obtain r where r: "FeeHistory ascii_strings (store_of []) 3 ''0x5'' [25, 75 :: rat] = Inr r"
      "length (BaseFeePerGas r) = effective_count 3 5 + 1"
      "length (GasUsedRatio r) = effective_count 3 5"
      "length (Reward r) = effective_count 3 5"
      "\<forall>row \<in> set (Reward r). length row = length [25, 75 :: rat]"
    using FeeHistory_shape [OF h1 h2, of 3 "[25, 75 :: rat]"] small ne by blast
  have "replicate (length (map length (Reward r))) 2 = map length (Reward r)"
    using r(5) by (intro replicate_length_same) auto
  then have "map length (Reward r) = [2, 2, 2]"
    using r(4) ec by (simp add: numeral_3_eq_3)
  with r ec have "\<exists>r. FeeHistory ascii_strings (store_of []) 3 ''0x5'' [25, 75 :: rat] = Inr r \<and>
        length (BaseFeePerGas r) = 4 \<and> length (GasUsedRatio r) = 3 \<and>
        map length (Reward r) = [2, 2, 2]"
    by simp
  with h1 h2 w1 show ?thesis by simp
qed

text \<open>
  The claim as stated fails: a count of 0 at height 5 gives two base fees and one
  ratio, and a count of 5 at height 1 gives three base fees, two ratios and two
  reward rows.
\<close>

theorem FeeHistory_count_counterexample:
  "FeeHistory ascii_strings (store_of []) 0 ''0x5'' ([] :: rat list) =
     Inr \<lparr>OldestBlock = 5, BaseFeePerGas = [5000000000, 5000000000], GasUsedRatio = [1 / 2],
          Reward = []\<rparr> \<and>
   FeeHistory ascii_strings (store_of []) 5 ''0x1'' [50 :: rat] =
     Inr \<lparr>OldestBlock = 0, BaseFeePerGas = [5000000000, 5000000000, 5000000000],
          GasUsedRatio = [1 / 2, 1 / 2], Reward = [[1000000000], [1000000000]]\<rparr>"
proof -
  have r1: "replicate 1 x = [x]" for x :: 'a by simp
  have r2: "replicate 2 x = [x, x]" for x :: 'a by (simp add: numeral_2_eq_2)
  have r3: "replicate 3 x = [x, x, x]" for x :: 'a by (simp add: numeral_3_eq_3)
  have c: "\<not> (4 :: u64) \<le> 1" by (simp add: word_le_nat_alt)
  show ?thesis
    by (simp add: FeeHistory_def parse_0x5_ascii parse_0x1_ascii LatestBlockNumber_def PendingBlockNumber_def
        EarliestBlockNumber_def ToUint64_def r1 r2 r3 c)
qed


subsection \<open>Dispatcher: version check and id\<close>

lemma error_response_fields:
  "resp_JSONRPC (error_response i e) = ''2.0''" "resp_ID (error_response i e) = i"
  "resp_Error (error_response i e) = Some e" "resp_Result (error_response i e) = None"
  by (simp_all add: error_response_def)

lemma HandleRequest_echo:
  "HandleRequest L h req ip = (Some resp, h') \<Longrightarrow>
   resp_JSONRPC resp = ''2.0'' \<and> resp_ID resp = req_ID req"
  unfolding HandleRequest_def Let_def
  by (auto simp: error_response_fields split: if_splits prod.splits option.splits sum.splits go_error.splits)









subsection \<open>Rate limiting\<close>

lemma allow_global_frame: "allow_global L rl = (ok, rl1) \<Longrightarrow> ipLimiters rl1 = ipLimiters rl"
  by (auto simp: allow_global_def split: option.splits prod.splits)

lemma allow_ip_frame:
  "allow_ip L rl1 ip = (ok, rl3) \<Longrightarrow> k \<noteq> ip \<Longrightarrow> ipLimiters rl3 k = ipLimiters rl1 k"
  by (auto simp: allow_ip_def getIPLimiter_def Let_def split: option.splits prod.splits if_splits)

lemma Allow_global_denied:
  "enabled rl \<Longrightarrow> allow_global L rl = (False, rl1) \<Longrightarrow> Allow L rl ip m = ((False, ''global''), rl1)"
  by (simp add: Allow_def)

lemma Allow_ip_denied:
  "enabled rl \<Longrightarrow> allow_global L rl = (True, rl1) \<Longrightarrow> allow_ip L rl1 ip = (False, rl3) \<Longrightarrow>
   Allow L rl ip m = ((False, ''ip''), rl3)"
  by (simp add: Allow_def)

lemma Allow_method_denied:
  "enabled rl \<Longrightarrow> allow_global L rl = (True, rl1) \<Longrightarrow> allow_ip L rl1 ip = (True, rl3) \<Longrightarrow>
   allow_method L rl3 m = (False, rl4) \<Longrightarrow> Allow L rl ip m = ((False, ''method''), rl4)"
  by (simp add: Allow_def)

lemma Allow_tags:
  "Allow L rl ip m = ((False, tag), rl') \<Longrightarrow> tag \<in> {''global'', ''ip'', ''method''}"
  unfolding Allow_def Let_def
  by (auto split: if_splits prod.splits)

lemma HandleRequest_limited:
  "req_JSONRPC req = ''2.0'' \<Longrightarrow> rateLimiter h = Some rl \<Longrightarrow>
   Allow L rl ip (req_Method req) = ((False, tag), rl') \<Longrightarrow>
   HandleRequest L h req ip =
     (Some \<lparr>resp_JSONRPC = ''2.0'', resp_ID = req_ID req, resp_Result = None,
            resp_Error = Some \<lparr>Code = - 32006, Message = ''rate limit exceeded: '' @ tag\<rparr>\<rparr>,
      h\<lparr>rateLimiter := Some rl'\<rparr>)"
  by (simp add: HandleRequest_def error_response_def ErrCodeLimitExceeded_def)

text \<open>
  C7. With the limiter enabled, \<open>Allow\<close> asks the global bucket first, then the
  peer's, then the method's, and the first that denies gives the tag \<open>global\<close>,
  \<open>ip\<close> or \<open>method\<close>; no other tag goes with a denial. A denial by the global
  bucket leaves the bucket map as it was (no peer or method bucket is asked or made),
  and a denial by the peer's bucket leaves every entry of the map but the peer's own as
  it was. \<open>HandleRequest\<close> answers a denied request with the error -32006 and the
  message \<open>rate limit exceeded: \<close> followed by the tag.
\<close>

theorem Allow_scope_order:
  "(enabled rl \<longrightarrow>
      (\<forall>rl1. allow_global L rl = (False, rl1) \<longrightarrow>
         Allow L rl ip m = ((False, ''global''), rl1) \<and> ipLimiters rl1 = ipLimiters rl) \<and>
      (\<forall>rl1 rl3. allow_global L rl = (True, rl1) \<and> allow_ip L rl1 ip = (False, rl3) \<longrightarrow>
         Allow L rl ip m = ((False, ''ip''), rl3) \<and>
         (\<forall>k. k \<noteq> ip \<longrightarrow> ipLimiters rl3 k = ipLimiters rl k)) \<and>
      (\<forall>rl1 rl3 rl4. allow_global L rl = (True, rl1) \<and> allow_ip L rl1 ip = (True, rl3) \<and>
           allow_method L rl3 m = (False, rl4) \<longrightarrow>
         Allow L rl ip m = ((False, ''method''), rl4))) \<and>
   (\<forall>tag rl'. Allow L rl ip m = ((False, tag), rl') \<longrightarrow> tag \<in> {''global'', ''ip'', ''method''}) \<and>
   (\<forall>tag rl'. req_JSONRPC req = ''2.0'' \<and> rateLimiter h = Some rl \<and>
        Allow L rl ip (req_Method req) = ((False, tag), rl') \<longrightarrow>
      HandleRequest L h req ip =
        (Some \<lparr>resp_JSONRPC = ''2.0'', resp_ID = req_ID req, resp_Result = None,
               resp_Error = Some \<lparr>Code = - 32006, Message = ''rate limit exceeded: '' @ tag\<rparr>\<rparr>,
         h\<lparr>rateLimiter := Some rl'\<rparr>))"
proof -
  have g: "enabled rl \<longrightarrow> (\<forall>rl1. allow_global L rl = (False, rl1) \<longrightarrow>
         Allow L rl ip m = ((False, ''global''), rl1) \<and> ipLimiters rl1 = ipLimiters rl)"
    using Allow_global_denied allow_global_frame by blast
  have i: "enabled rl \<longrightarrow> (\<forall>rl1 rl3. allow_global L rl = (True, rl1) \<and> allow_ip L rl1 ip = (False, rl3) \<longrightarrow>
         Allow L rl ip m = ((False, ''ip''), rl3) \<and>
         (\<forall>k. k \<noteq> ip \<longrightarrow> ipLimiters rl3 k = ipLimiters rl k))"
  proof (intro impI allI conjI)
    fix rl1 rl3 k
    assume e: "enabled rl" and s: "allow_global L rl = (True, rl1) \<and> allow_ip L rl1 ip = (False, rl3)"
    from e s show "Allow L rl ip m = ((False, ''ip''), rl3)" by (simp add: Allow_ip_denied)
    assume k: "k \<noteq> ip"
    have "ipLimiters rl3 k = ipLimiters rl1 k"
      using allow_ip_frame [of L rl1 ip False rl3 k] s k by simp
    also have "ipLimiters rl1 = ipLimiters rl"
      using allow_global_frame [of L rl True rl1] s by simp
    finally show "ipLimiters rl3 k = ipLimiters rl k" .
  qed
  have me: "enabled rl \<longrightarrow> (\<forall>rl1 rl3 rl4. allow_global L rl = (True, rl1) \<and> allow_ip L rl1 ip = (True, rl3) \<and>
           allow_method L rl3 m = (False, rl4) \<longrightarrow>
         Allow L rl ip m = ((False, ''method''), rl4))"
    using Allow_method_denied by blast
  have t: "\<forall>tag rl'. Allow L rl ip m = ((False, tag), rl') \<longrightarrow> tag \<in> {''global'', ''ip'', ''method''}"
    using Allow_tags by blast
  have hr: "\<forall>tag rl'. req_JSONRPC req = ''2.0'' \<and> rateLimiter h = Some rl \<and>
        Allow L rl ip (req_Method req) = ((False, tag), rl') \<longrightarrow>
      HandleRequest L h req ip =
        (Some \<lparr>resp_JSONRPC = ''2.0'', resp_ID = req_ID req, resp_Result = None,
               resp_Error = Some \<lparr>Code = - 32006, Message = ''rate limit exceeded: '' @ tag\<rparr>\<rparr>,
         h\<lparr>rateLimiter := Some rl'\<rparr>)"
    using HandleRequest_limited by blast
  from g i me t hr show ?thesis by blast
qed


theorem Allow_scope_order_witness:
  "Allow counting_bucket (example_limiter (Some 0) Map.empty 10) ''10.0.0.1'' ''eth_call'' =
     ((False, ''global''), example_limiter (Some 0) Map.empty 10) \<and>
   Allow counting_bucket (example_limiter (Some 3) [''10.0.0.1'' \<mapsto> 0] 10) ''10.0.0.1'' ''eth_call'' =
     ((False, ''ip''), example_limiter (Some 2) [''10.0.0.1'' \<mapsto> 0] 10) \<and>
   Allow counting_bucket (example_limiter None [''method:eth_call'' \<mapsto> 0] 0) ''10.0.0.1'' ''eth_call'' =
     ((False, ''method''), example_limiter None [''method:eth_call'' \<mapsto> 0] 0) \<and>
   HandleRequest counting_bucket
       \<lparr>methods = Map.empty, rateLimiter = Some (example_limiter (Some 0) Map.empty 10)\<rparr>
       \<lparr>req_JSONRPC = ''2.0'', req_ID = JNumber ''7'', req_Method = ''eth_call'', req_Params = None\<rparr>
       ''10.0.0.1'' =
     (Some \<lparr>resp_JSONRPC = ''2.0'', resp_ID = JNumber ''7'', resp_Result = None,
            resp_Error = Some \<lparr>Code = - 32006, Message = ''rate limit exceeded: global''\<rparr>\<rparr>,
      \<lparr>methods = Map.empty, rateLimiter = Some (example_limiter (Some 0) Map.empty 10)\<rparr>)"
proof -
  let ?L = counting_bucket
  let ?G = "example_limiter (Some 0) Map.empty 10"
  let ?I = "example_limiter (Some 3) [''10.0.0.1'' \<mapsto> 0] 10"
  let ?I1 = "example_limiter (Some 2) [''10.0.0.1'' \<mapsto> 0] 10"
  let ?M = "example_limiter None [''method:eth_call'' \<mapsto> 0] 0"
  let ?h = "\<lparr>methods = Map.empty, rateLimiter = Some ?G\<rparr> :: nat JSONRPCHandler"
  let ?req = "\<lparr>req_JSONRPC = ''2.0'', req_ID = JNumber ''7'', req_Method = ''eth_call'', req_Params = None\<rparr>"
  have en: "enabled ?G" "enabled ?I" "enabled ?M" by (simp_all add: example_limiter_def)
  have g1: "allow_global ?L ?G = (False, ?G)"
    by (simp add: allow_global_def counting_bucket_def example_limiter_def)
  have g2: "allow_global ?L ?I = (True, ?I1)"
    by (simp add: allow_global_def counting_bucket_def example_limiter_def)
  have i2: "allow_ip ?L ?I1 ''10.0.0.1'' = (False, ?I1)"
    by (simp add: allow_ip_def getIPLimiter_def counting_bucket_def example_limiter_def)
  have g3: "allow_global ?L ?M = (True, ?M)"
    by (simp add: allow_global_def counting_bucket_def example_limiter_def)
  have i3: "allow_ip ?L ?M ''10.0.0.1'' = (True, ?M)"
    by (simp add: allow_ip_def getIPLimiter_def counting_bucket_def example_limiter_def)
  have m3: "allow_method ?L ?M ''eth_call'' = (False, ?M)"
    by (simp add: allow_method_def counting_bucket_def example_limiter_def)
  note T = Allow_scope_order [of _ ?L "''10.0.0.1''" "''eth_call''" ?req ?h]
  have w1: "Allow ?L ?G ''10.0.0.1'' ''eth_call'' = ((False, ''global''), ?G)"
    using T [of ?G] en(1) g1 by blast
  have w2: "Allow ?L ?I ''10.0.0.1'' ''eth_call'' = ((False, ''ip''), ?I1)"
    using T [of ?I] en(2) g2 i2 by blast
  have w3: "Allow ?L ?M ''10.0.0.1'' ''eth_call'' = ((False, ''method''), ?M)"
    using T [of ?M] en(3) g3 i3 m3 by blast
  have r: "req_JSONRPC ?req = ''2.0''" "rateLimiter ?h = Some ?G" "req_Method ?req = ''eth_call''"
    by simp_all
  have "HandleRequest ?L ?h ?req ''10.0.0.1'' =
     (Some \<lparr>resp_JSONRPC = ''2.0'', resp_ID = req_ID ?req, resp_Result = None,
            resp_Error = Some \<lparr>Code = - 32006, Message = ''rate limit exceeded: '' @ ''global''\<rparr>\<rparr>,
      ?h\<lparr>rateLimiter := Some ?G\<rparr>)"
  proof -
    have A: "req_JSONRPC ?req = ''2.0'' \<and> rateLimiter ?h = Some ?G \<and>
        Allow ?L ?G ''10.0.0.1'' (req_Method ?req) = ((False, ''global''), ?G)"
      using w1 by simp
    from T [of ?G, THEN conjunct2, THEN conjunct2, rule_format, OF A] show ?thesis .
  qed
  then have w4: "HandleRequest ?L ?h ?req ''10.0.0.1'' =
     (Some \<lparr>resp_JSONRPC = ''2.0'', resp_ID = JNumber ''7'', resp_Result = None,
            resp_Error = Some \<lparr>Code = - 32006, Message = ''rate limit exceeded: global''\<rparr>\<rparr>, ?h)"
    by simp
  from w1 w2 w3 w4 show ?thesis by simp
qed


subsection \<open>Storage slots\<close>

lemma GetStorageAt_padded:
  assumes "ParseBlockNumber C blockNr = Inr bn" and "state_resolveBlockNumber bn = Inr s"
    and "reader_GetStorageAt C p a k s = Inr v" and "length v \<le> 32"
  shows "GetStorageAt C p a k blockNr = Inr (replicate (32 - length v) 0 @ v) \<and>
         length (replicate (32 - length v) 0 @ v) = 32"
  using assms by (simp add: GetStorageAt_def)

lemma reader_GetStorageAt_absent:
  "Get p (storage_key C a k s) = Inl ErrNotFound \<Longrightarrow> reader_GetStorageAt C p a k s = Inr (replicate 32 0)"
  by (simp add: reader_GetStorageAt_def)

lemma GetStorageAt_too_long:
  assumes "ParseBlockNumber C blockNr = Inr bn" and "state_resolveBlockNumber bn = Inr s"
    and "reader_GetStorageAt C p a k s = Inr v" and "length v > 32"
  shows "GetStorageAt C p a k blockNr = Inl (Panic ''runtime error: slice bounds out of range'')"
  using assms by (simp add: GetStorageAt_def)

lemma state_resolve_latest: "state_resolveBlockNumber LatestBlockNumber = Inr ''latest''"
  by (simp add: state_resolveBlockNumber_def)

lemma GetStorageAt_long_value_panics:
  "GetStorageAt (example_codec example_tx example_account)
     (store_of [(storage_key (example_codec example_tx example_account)
                   (replicate 20 0x11) (replicate 32 0) ''latest'', replicate 33 0xFF)])
     (replicate 20 0x11) (replicate 32 0) ''latest'' =
   Inl (Panic ''runtime error: slice bounds out of range'')"
proof -
  let ?C = "example_codec example_tx example_account"
  let ?k = "storage_key ?C (replicate 20 0x11) (replicate 32 0) ''latest''"
  have "reader_GetStorageAt ?C (store_of [(?k, replicate 33 0xFF)]) (replicate 20 0x11) (replicate 32 0) ''latest''
      = Inr (replicate 33 0xFF)"
    by (simp add: reader_GetStorageAt_def Get_def store_of_def)
  moreover have "length (replicate 33 (0xFF :: byte)) > 32" by simp
  ultimately show ?thesis
    using GetStorageAt_too_long [OF parse_latest state_resolve_latest] by blast
qed

lemma parse_high:
  "ParseBlockNumber (example_codec tx acc) ''0x8000000000000000'' = Inr 0x8000000000000000"
  by (simp add: ParseBlockNumber_def example_strings ascii_TrimSpace_def ascii_ToLower_def
      to_lower_char_def is_space_def HasPrefix_def ParseUint_def digit_value_def cutoff_def)

lemma sint_high: "sint (0x8000000000000000 :: u64) = - 9223372036854775808"
  by simp

lemma show_high: "show_int (- 9223372036854775808) = ''-9223372036854775808''"
  by (simp add: show_int_def show_nat.simps hex_digit_def)

lemma GetStorageAt_high_tag_error:
  "GetStorageAt (example_codec example_tx example_account) (store_of [])
     (replicate 20 0x11) (replicate 32 0) ''0x8000000000000000'' =
   Inl (Errorf ''cannot convert -9223372036854775808 to uint64'')"
  by (simp add: GetStorageAt_def parse_high state_resolveBlockNumber_def ToUint64_def
      LatestBlockNumber_def PendingBlockNumber_def EarliestBlockNumber_def show_high)


text \<open>
  C3. \<open>GetStorageAt\<close> answers exactly 32 bytes, the stored value padded with zeros on
  the left, for a stored value of at most 32 bytes, and 32 zero bytes for an absent
  slot (\<open>GetStorageAt_padded\<close>, \<open>reader_GetStorageAt_absent\<close>). It does not for every
  input: with 33 bytes stored under the slot's key the padding step panics, and the
  tag \<open>0x8000000000000000\<close>, which \<open>ParseBlockNumber\<close> accepts, makes the call fail
  in the conversion of the block number.
\<close>

theorem GetStorageAt_fails_on_valid_input:
  "GetStorageAt (example_codec example_tx example_account)
     (store_of [(storage_key (example_codec example_tx example_account)
                   (replicate 20 0x11) (replicate 32 0) ''latest'', replicate 33 0xFF)])
     (replicate 20 0x11) (replicate 32 0) ''latest'' =
   Inl (Panic ''runtime error: slice bounds out of range'') \<and>
   ParseBlockNumber (example_codec example_tx example_account) ''0x8000000000000000'' =
     Inr 0x8000000000000000 \<and>
   GetStorageAt (example_codec example_tx example_account) (store_of [])
     (replicate 20 0x11) (replicate 32 0) ''0x8000000000000000'' =
   Inl (Errorf ''cannot convert -9223372036854775808 to uint64'')"
  using GetStorageAt_long_value_panics parse_high GetStorageAt_high_tag_error by simp

subsection \<open>Batches\<close>

lemma ParseRequest_empty_array:
  "json_Document J data = Some (JArray []) \<Longrightarrow>
   ParseRequest J data = Inl (RPCErr \<lparr>Code = - 32600, Message = ''empty batch request''\<rparr>)"
  by (simp add: ParseRequest_def parse_batch_def unmarshal_request_def unmarshal_batch_def
      ErrCodeInvalidRequest_def)

lemma handleRPC_parse_failure:
  "ParseRequest J data = Inl err \<Longrightarrow>
   handleRPC L J h (Inr data) ip = (sendJSONRPCError JNull (- 32700) (Error_text err), h)"
  by (simp add: handleRPC_def)

lemma empty_batch_text:
  "Error_text (RPCErr \<lparr>Code = - 32600, Message = ''empty batch request''\<rparr>) =
     ''rpc error: code=-32600, message=empty batch request''"
  by (simp add: show_int_def show_nat.simps hex_digit_def)

lemma handleRPC_empty_array:
  "json_Document J data = Some (JArray []) \<Longrightarrow>
   handleRPC L J h (Inr data) ip =
     (Reply \<lparr>resp_JSONRPC = ''2.0'', resp_ID = JNull, resp_Result = None,
             resp_Error = Some \<lparr>Code = - 32700,
                                Message = ''rpc error: code=-32600, message=empty batch request''\<rparr>\<rparr>, h)"
proof -
  assume d: "json_Document J data = Some (JArray [])"
  have p: "ParseRequest J data = Inl (RPCErr \<lparr>Code = - 32600, Message = ''empty batch request''\<rparr>)"
    using d by (rule ParseRequest_empty_array [of J data])
  show ?thesis
    using handleRPC_parse_failure [of J data _ L h ip, OF p]
    by (simp only: empty_batch_text sendJSONRPCError_def)
qed

text \<open>
  C5. A body that reads as the empty JSON array: \<open>ParseRequest\<close> returns the
  error -32600 (empty batch request), but \<open>handleRPC\<close> answers every error of
  \<open>ParseRequest\<close> with the code -32700 and the error's text as the message, so the
  client sees -32700.
\<close>

theorem handleRPC_empty_batch_code:
  "json_Document example_json (bytes_of_string ''[]'') = Some (JArray []) \<and>
   ParseRequest example_json (bytes_of_string ''[]'') =
     Inl (RPCErr \<lparr>Code = - 32600, Message = ''empty batch request''\<rparr>) \<and>
   handleRPC counting_bucket example_json example_handler (Inr (bytes_of_string ''[]'')) ''10.0.0.1'' =
     (Reply \<lparr>resp_JSONRPC = ''2.0'', resp_ID = JNull, resp_Result = None,
             resp_Error = Some \<lparr>Code = - 32700,
                                Message = ''rpc error: code=-32600, message=empty batch request''\<rparr>\<rparr>,
      example_handler)"
proof -
  have d: "json_Document example_json (bytes_of_string ''[]'') = Some (JArray [])"
    by (simp add: example_json_def)
  let ?b = "bytes_of_string ''[]''"
  from d have p: "ParseRequest example_json ?b =
      Inl (RPCErr \<lparr>Code = - 32600, Message = ''empty batch request''\<rparr>)"
    by (rule ParseRequest_empty_array [of example_json ?b])
  from d have r: "handleRPC counting_bucket example_json example_handler (Inr ?b) ''10.0.0.1'' =
     (Reply \<lparr>resp_JSONRPC = ''2.0'', resp_ID = JNull, resp_Result = None,
             resp_Error = Some \<lparr>Code = - 32700,
                                Message = ''rpc error: code=-32600, message=empty batch request''\<rparr>\<rparr>,
      example_handler)"
    by (rule handleRPC_empty_array [of example_json ?b])
  from d p r show ?thesis by simp
qed

text \<open>
  A batch is answered entry by entry, in order: the responses are as many as the
  requests and carry their ids in the same order.
\<close>

lemma HandleBatch_in_order:
  "HandleBatch L h reqs ip = (Some resps, h') \<Longrightarrow>
   length resps = length reqs \<and> map (\<lambda>r. Some (resp_ID r)) resps = map (map_option req_ID) reqs"
proof (induction reqs arbitrary: h resps)
  case Nil
  then show ?case by simp
next
  case (Cons r rs)
  show ?case
  proof (cases r)
    case None
    with Cons.prems show ?thesis by simp
  next
    case (Some req)
    from Cons.prems Some obtain resp h1 resps' where
      a: "HandleRequest L h req ip = (Some resp, h1)" and
      b: "HandleBatch L h1 rs ip = (Some resps', h')" and
      c: "resps = resp # resps'"
      by (auto split: prod.splits option.splits)
    from HandleRequest_echo [OF a] Cons.IH [OF b] c Some show ?thesis by simp
  qed
qed


subsection \<open>The transport before the dispatcher\<close>

text \<open>
  Before the dispatcher, the transport reads the body. A body that is one object
  without a \<open>jsonrpc\<close> string is not taken as a request by \<open>ParseRequest\<close>, fails
  to read as a batch, and is answered by \<open>handleRPC\<close> with the error -32700 and the
  id \<open>null\<close>; it does not reach \<open>HandleRequest\<close>. A body that \<open>ParseRequest\<close> takes
  as one request is answered with what \<open>HandleRequest\<close> returns.
\<close>

lemma ParseRequest_no_version:
  assumes "json_Document J data = Some (JObject members)"
    and "\<forall>r. unmarshal_request J zero_request (JObject members) = Some r \<longrightarrow> req_JSONRPC r = []"
  shows "ParseRequest J data = Inl (RPCErr \<lparr>Code = - 32700, Message = ''failed to parse request''\<rparr>)"
proof -
  have b: "parse_batch J data = Inl (RPCErr \<lparr>Code = - 32700, Message = ''failed to parse request''\<rparr>)"
    using assms(1) by (simp add: parse_batch_def unmarshal_batch_def ErrCodeParse_def)
  show ?thesis
  proof (cases "unmarshal_request J zero_request (JObject members)")
    case None
    with assms(1) b show ?thesis by (simp add: ParseRequest_def)
  next
    case (Some r)
    with assms(2) have "req_JSONRPC r = []" by simp
    with assms(1) Some b show ?thesis by (simp add: ParseRequest_def)
  qed
qed

lemma handleRPC_no_version:
  assumes "json_Document J data = Some (JObject members)"
    and "\<forall>r. unmarshal_request J zero_request (JObject members) = Some r \<longrightarrow> req_JSONRPC r = []"
  shows "handleRPC L J h (Inr data) ip =
     (Reply \<lparr>resp_JSONRPC = ''2.0'', resp_ID = JNull, resp_Result = None,
             resp_Error = Some \<lparr>Code = - 32700,
                                Message = ''rpc error: code=-32700, message=failed to parse request''\<rparr>\<rparr>, h)"
proof -
  have t: "Error_text (RPCErr \<lparr>Code = - 32700, Message = ''failed to parse request''\<rparr>) =
      ''rpc error: code=-32700, message=failed to parse request''"
    by (simp add: show_int_def show_nat.simps hex_digit_def)
  have p: "ParseRequest J data = Inl (RPCErr \<lparr>Code = - 32700, Message = ''failed to parse request''\<rparr>)"
    by (rule ParseRequest_no_version [OF assms])
  show ?thesis
    using handleRPC_parse_failure [of J data _ L h ip, OF p]
    by (simp only: t sendJSONRPCError_def)
qed

lemma handleRPC_single:
  "ParseRequest J data = Inr (Single v) \<Longrightarrow>
   handleRPC L J h (Inr data) ip =
     (case HandleRequest L h v ip of
        (None, h') \<Rightarrow> (NoReply, h')
      | (Some response, h') \<Rightarrow> (Reply response, h'))"
  by (simp add: handleRPC_def)

subsection \<open>Admission\<close>

lemma sint_gas:
  fixes g :: u64
  assumes "0 \<le> sint g"
  shows "sint g = uint g"
proof -
  have "sint g < 2 ^ (LENGTH(64) - 1)" by (rule sint_lt)
  then have "sint g < 2 ^ 64" by simp
  with assms have "take_bit 64 (sint g) = sint g" by (simp add: take_bit_int_eq_self)
  then show ?thesis using uint_sint [of g] by simp
qed

lemma SRT_decode_fails:
  "rlp_Transaction C input = Inl e \<Longrightarrow>
   SendRawTransaction C chainID p input =
     (Inl (RPCErr \<lparr>Code = - 32001, Message = ''invalid transaction: '' @ e\<rparr>), p)"
  by (simp add: SendRawTransaction_def ErrCodeInvalidInput_def)

lemma SRT_sender_fails:
  "rlp_Transaction C input = Inr tx \<Longrightarrow> tx_Sender tx = Inl e \<Longrightarrow>
   SendRawTransaction C chainID p input =
     (Inl (RPCErr \<lparr>Code = - 32001, Message = ''invalid signature: '' @ e\<rparr>), p)"
  by (simp add: SendRawTransaction_def ErrCodeInvalidInput_def)

lemma SRT_chain_id:
  "rlp_Transaction C input = Inr tx \<Longrightarrow> tx_Sender tx = Inr sender \<Longrightarrow>
   chain_id_mismatch chainID tx \<Longrightarrow>
   \<exists>m. SendRawTransaction C chainID p input = (Inl (RPCErr \<lparr>Code = - 32001, Message = m\<rparr>), p)"
  by (simp add: SendRawTransaction_def ErrCodeInvalidInput_def chain_id_mismatch_def)

lemma SRT_nonce:
  "rlp_Transaction C input = Inr tx \<Longrightarrow> tx_Sender tx = Inr sender \<Longrightarrow>
   \<not> chain_id_mismatch chainID tx \<Longrightarrow> GetNonce C p sender ''latest'' = Inr cur \<Longrightarrow>
   tx_Nonce tx < cur \<Longrightarrow>
   SendRawTransaction C chainID p input =
     (Inl (RPCErr \<lparr>Code = - 32004,
         Message = ''nonce too low: got '' @ show_nat (unat (tx_Nonce tx)) @
                   '', expected >= '' @ show_nat (unat cur)\<rparr>), p)"
  by (simp add: SendRawTransaction_def ErrCodeTransactionReject_def chain_id_mismatch_def)

lemma SRT_funds:
  "rlp_Transaction C input = Inr tx \<Longrightarrow> tx_Sender tx = Inr sender \<Longrightarrow>
   \<not> chain_id_mismatch chainID tx \<Longrightarrow> GetNonce C p sender ''latest'' = Inr cur \<Longrightarrow>
   \<not> tx_Nonce tx < cur \<Longrightarrow> GetBalance C p sender ''latest'' = Inr bal \<Longrightarrow>
   0 \<le> sint (tx_Gas tx) \<Longrightarrow> bal < admission_cost tx \<Longrightarrow>
   SendRawTransaction C chainID p input =
     (Inl (RPCErr \<lparr>Code = - 32004,
         Message = ''insufficient funds: balance='' @ show_int bal @
                   '', required='' @ show_int (admission_cost tx)\<rparr>), p)"
  by (simp add: SendRawTransaction_def ErrCodeTransactionReject_def chain_id_mismatch_def
      admission_cost_def effective_gas_price_def sint_gas Let_def mult.commute)

lemma SRT_gas_floor:
  "rlp_Transaction C input = Inr tx \<Longrightarrow> tx_Sender tx = Inr sender \<Longrightarrow>
   \<not> chain_id_mismatch chainID tx \<Longrightarrow> GetNonce C p sender ''latest'' = Inr cur \<Longrightarrow>
   \<not> tx_Nonce tx < cur \<Longrightarrow> GetBalance C p sender ''latest'' = Inr bal \<Longrightarrow>
   0 \<le> sint (tx_Gas tx) \<Longrightarrow> \<not> bal < admission_cost tx \<Longrightarrow> tx_Gas tx < 21000 \<Longrightarrow>
   SendRawTransaction C chainID p input =
     (Inl (RPCErr \<lparr>Code = - 32001,
         Message = ''gas limit too low: got '' @ show_nat (unat (tx_Gas tx)) @ '', minimum 21000''\<rparr>), p)"
  by (simp add: SendRawTransaction_def ErrCodeInvalidInput_def chain_id_mismatch_def
      admission_cost_def effective_gas_price_def sint_gas Let_def mult.commute)

lemma SRT_accepted:
  "rlp_Transaction C input = Inr tx \<Longrightarrow> tx_Sender tx = Inr sender \<Longrightarrow>
   \<not> chain_id_mismatch chainID tx \<Longrightarrow> GetNonce C p sender ''latest'' = Inr cur \<Longrightarrow>
   \<not> tx_Nonce tx < cur \<Longrightarrow> GetBalance C p sender ''latest'' = Inr bal \<Longrightarrow>
   0 \<le> sint (tx_Gas tx) \<Longrightarrow> \<not> bal < admission_cost tx \<Longrightarrow> \<not> tx_Gas tx < 21000 \<Longrightarrow>
   AddPendingTx C p tx ''rpc'' = (None, p') \<Longrightarrow>
   SendRawTransaction C chainID p input = (Inr (tx_Hash tx), p')"
  by (simp add: SendRawTransaction_def chain_id_mismatch_def
      admission_cost_def effective_gas_price_def sint_gas Let_def mult.commute)

lemma AddPendingTx_inserts:
  assumes enc: "rlp_Encode C tx = Inr data" and snd: "tx_Sender tx = Inr sender"
    and price: "tx_GasPrice tx \<noteq> None \<or> tx_GasFeeCap tx \<noteq> None"
    and up: "unavailable p = Map.empty"
  shows "\<exists>p'. AddPendingTx C p tx src = (None, p') \<and>
      kv_strings p' (''pool:pending:'' @ Hash_Hex (tx_Hash tx)) = Some data \<and>
      kv_zsets p' (''pool:addr:'' @ Address_Hex C sender) (Hash_Hex (tx_Hash tx)) = Some (tx_Nonce tx) \<and>
      kv_zsets p' ''pool:byprice'' (Hash_Hex (tx_Hash tx)) = Some (big_Uint64 (effective_gas_price tx)) \<and>
      kv_published p' = kv_published p @ [(''pool:new'', Hash_Hex (tx_Hash tx))]"
proof -
  have g: "(case tx_GasPrice tx of Some g \<Rightarrow> Some g | None \<Rightarrow> tx_GasFeeCap tx) =
      Some (effective_gas_price tx)"
    using price
    by (cases "tx_GasPrice tx"; cases "tx_GasFeeCap tx") (auto simp: effective_gas_price_def)
  show ?thesis
    unfolding AddPendingTx_def Let_def
    using enc snd up g
    by (simp add: Set_key_def ZAdd_def Publish_def)
qed


lemma SRT_inserted:
  assumes "rlp_Transaction C input = Inr tx" and "tx_Sender tx = Inr sender"
    and "\<not> chain_id_mismatch chainID tx" and "GetNonce C p sender ''latest'' = Inr cur"
    and "\<not> tx_Nonce tx < cur" and "GetBalance C p sender ''latest'' = Inr bal"
    and "0 \<le> sint (tx_Gas tx)" and "\<not> bal < admission_cost tx" and "\<not> tx_Gas tx < 21000"
    and "rlp_Encode C tx = Inr data"
    and "tx_GasPrice tx \<noteq> None \<or> tx_GasFeeCap tx \<noteq> None"
    and "unavailable p = Map.empty"
  shows "\<exists>p'. SendRawTransaction C chainID p input = (Inr (tx_Hash tx), p') \<and>
      kv_strings p' (''pool:pending:'' @ Hash_Hex (tx_Hash tx)) = Some data \<and>
      kv_zsets p' (''pool:addr:'' @ Address_Hex C sender) (Hash_Hex (tx_Hash tx)) = Some (tx_Nonce tx) \<and>
      kv_zsets p' ''pool:byprice'' (Hash_Hex (tx_Hash tx)) = Some (big_Uint64 (effective_gas_price tx)) \<and>
      kv_published p' = kv_published p @ [(''pool:new'', Hash_Hex (tx_Hash tx))]"
proof -
  from AddPendingTx_inserts [OF assms(10) assms(2) assms(11) assms(12), of "''rpc''"]
  obtain p' where a: "AddPendingTx C p tx ''rpc'' = (None, p')"
    and b: "kv_strings p' (''pool:pending:'' @ Hash_Hex (tx_Hash tx)) = Some data"
      "kv_zsets p' (''pool:addr:'' @ Address_Hex C sender) (Hash_Hex (tx_Hash tx)) = Some (tx_Nonce tx)"
      "kv_zsets p' ''pool:byprice'' (Hash_Hex (tx_Hash tx)) = Some (big_Uint64 (effective_gas_price tx))"
      "kv_published p' = kv_published p @ [(''pool:new'', Hash_Hex (tx_Hash tx))]"
    by blast
  from SRT_accepted [OF assms(1-9) a] b show ?thesis by blast
qed

text \<open>
  C1 (as amended). \<open>SendRawTransaction\<close> applies its checks in one order and the first
  that fails decides the answer: RLP decoding, signature recovery and the chain-id
  comparison fail with -32001; then a nonce below the sender's nonce at \<open>latest\<close>
  fails with -32004 and a message that starts \<open>nonce too low\<close>; then a balance at
  \<open>latest\<close> below value + gasLimit * effectiveGasPrice (for a gas limit below
  \<open>2^63\<close>) fails with -32004 and a message that starts \<open>insufficient funds\<close>; then a
  gas limit below 21000 fails with -32001. When every check passes and the pool store
  takes the writes, the transaction is stored under its pending key, indexed by sender
  and by price, published on \<open>pool:new\<close>, and its hash is returned.
\<close>

theorem SendRawTransaction_checks:
  "(\<forall>e. rlp_Transaction C input = Inl e \<longrightarrow>
      SendRawTransaction C chainID p input =
        (Inl (RPCErr \<lparr>Code = - 32001, Message = ''invalid transaction: '' @ e\<rparr>), p)) \<and>
   (rlp_Transaction C input = Inr tx \<longrightarrow>
      (\<forall>e. tx_Sender tx = Inl e \<longrightarrow>
         SendRawTransaction C chainID p input =
           (Inl (RPCErr \<lparr>Code = - 32001, Message = ''invalid signature: '' @ e\<rparr>), p)) \<and>
      (tx_Sender tx = Inr sender \<longrightarrow>
         (chain_id_mismatch chainID tx \<longrightarrow>
            (\<exists>m. SendRawTransaction C chainID p input =
               (Inl (RPCErr \<lparr>Code = - 32001, Message = m\<rparr>), p))) \<and>
         (\<not> chain_id_mismatch chainID tx \<and> GetNonce C p sender ''latest'' = Inr cur \<longrightarrow>
            (tx_Nonce tx < cur \<longrightarrow>
               SendRawTransaction C chainID p input =
                 (Inl (RPCErr \<lparr>Code = - 32004,
                     Message = ''nonce too low: got '' @ show_nat (unat (tx_Nonce tx)) @
                               '', expected >= '' @ show_nat (unat cur)\<rparr>), p)) \<and>
            (\<not> tx_Nonce tx < cur \<and> GetBalance C p sender ''latest'' = Inr bal \<and>
               0 \<le> sint (tx_Gas tx) \<longrightarrow>
               (bal < admission_cost tx \<longrightarrow>
                  SendRawTransaction C chainID p input =
                    (Inl (RPCErr \<lparr>Code = - 32004,
                        Message = ''insufficient funds: balance='' @ show_int bal @
                                  '', required='' @ show_int (admission_cost tx)\<rparr>), p)) \<and>
               (\<not> bal < admission_cost tx \<longrightarrow>
                  (tx_Gas tx < 21000 \<longrightarrow>
                     SendRawTransaction C chainID p input =
                       (Inl (RPCErr \<lparr>Code = - 32001,
                           Message = ''gas limit too low: got '' @ show_nat (unat (tx_Gas tx)) @
                                     '', minimum 21000''\<rparr>), p)) \<and>
                  (\<not> tx_Gas tx < 21000 \<longrightarrow>
                     (\<forall>p'. AddPendingTx C p tx ''rpc'' = (None, p') \<longrightarrow>
                        SendRawTransaction C chainID p input = (Inr (tx_Hash tx), p')) \<and>
                     (\<forall>data. rlp_Encode C tx = Inr data \<and>
                          (tx_GasPrice tx \<noteq> None \<or> tx_GasFeeCap tx \<noteq> None) \<and>
                          unavailable p = Map.empty \<longrightarrow>
                        (\<exists>p'. SendRawTransaction C chainID p input = (Inr (tx_Hash tx), p') \<and>
                           kv_strings p' (''pool:pending:'' @ Hash_Hex (tx_Hash tx)) = Some data \<and>
                           kv_zsets p' (''pool:addr:'' @ Address_Hex C sender) (Hash_Hex (tx_Hash tx)) =
                             Some (tx_Nonce tx) \<and>
                           kv_zsets p' ''pool:byprice'' (Hash_Hex (tx_Hash tx)) =
                             Some (big_Uint64 (effective_gas_price tx)) \<and>
                           kv_published p' =
                             kv_published p @ [(''pool:new'', Hash_Hex (tx_Hash tx))]))))))))"
proof (intro conjI impI allI, goal_cases)
  case (1 e)
  then show ?case by (rule SRT_decode_fails)
next
  case (2 e)
  then show ?case by (rule SRT_sender_fails)
next
  case 3
  then show ?case by (rule SRT_chain_id)
next
  case 4
  then show ?case using SRT_nonce by blast
next
  case 5
  then show ?case using SRT_funds by blast
next
  case 6
  then show ?case using SRT_gas_floor by blast
next
  case (7 p')
  then show ?case using SRT_accepted by blast
next
  case (8 data)
  then show ?case using SRT_inserted [of C input tx sender chainID p cur bal data] by blast
qed


lemma example_reads:
  "GetNonce (example_codec tx example_account) (example_store (example_codec tx example_account))
     (replicate 20 0x11) ''latest'' = Inr 5"
  "GetBalance (example_codec tx example_account) (example_store (example_codec tx example_account))
     (replicate 20 0x11) ''latest'' = Inr 1000000"
  by (simp_all add: GetNonce_def GetBalance_def Get_def example_store_def store_of_def
      example_codec_def example_account_def)

lemma show_nat_3: "show_nat 3 = ''3''"
  by (simp add: show_nat.simps hex_digit_def)

text \<open>
  The claim as stated fails: a transaction with gas limit 20000 and nonce 3, from a
  sender whose nonce is 5, is rejected with -32004 (nonce too low), not with -32001.
\<close>

theorem SendRawTransaction_order_counterexample:
  "tx_Gas (example_tx\<lparr>tx_Gas := 20000, tx_Nonce := 3\<rparr>) < 21000 \<and>
   SendRawTransaction (example_codec (example_tx\<lparr>tx_Gas := 20000, tx_Nonce := 3\<rparr>) example_account) 56
     (example_store (example_codec (example_tx\<lparr>tx_Gas := 20000, tx_Nonce := 3\<rparr>) example_account)) [1] =
   (Inl (RPCErr \<lparr>Code = - 32004, Message = ''nonce too low: got 3, expected >= 5''\<rparr>),
    example_store (example_codec (example_tx\<lparr>tx_Gas := 20000, tx_Nonce := 3\<rparr>) example_account))"
proof -
  let ?tx = "example_tx\<lparr>tx_Gas := 20000, tx_Nonce := 3\<rparr>"
  let ?C = "example_codec ?tx example_account"
  have g: "tx_Gas ?tx < 21000" by (simp add: word_less_nat_alt)
  have d: "rlp_Transaction ?C [1] = Inr ?tx" by (simp add: example_codec_def)
  have s: "tx_Sender ?tx = Inr (replicate 20 0x11)" by (simp add: example_tx_def)
  have c: "\<not> chain_id_mismatch 56 ?tx"
    by (simp add: chain_id_mismatch_def example_tx_def big_Uint64_def)
  have n: "tx_Nonce ?tx < 5" by (simp add: word_less_nat_alt)
  have "SendRawTransaction ?C 56 (example_store ?C) [1] =
     (Inl (RPCErr \<lparr>Code = - 32004,
         Message = ''nonce too low: got '' @ show_nat (unat (tx_Nonce ?tx)) @
                   '', expected >= '' @ show_nat (unat (5 :: u64))\<rparr>), example_store ?C)"
    by (rule SRT_nonce [OF d s c example_reads(1) n])
  then show ?thesis using g by (simp add: show_nat_3 show_nat_5)
qed

theorem SendRawTransaction_checks_witness:
  "\<exists>p'. SendRawTransaction (example_codec example_tx example_account) 56
          (example_store (example_codec example_tx example_account)) [1] =
        (Inr (replicate 32 0xAB), p') \<and>
      kv_strings p' (''pool:pending:'' @ Hash_Hex (replicate 32 0xAB)) = Some [1] \<and>
      kv_published p' = [(''pool:new'', Hash_Hex (replicate 32 0xAB))]"
proof -
  let ?C = "example_codec example_tx example_account"
  let ?p = "example_store ?C"
  let ?s = "replicate 20 (0x11 :: byte)"
  have d: "rlp_Transaction ?C [1] = Inr example_tx" by (simp add: example_codec_def)
  have s: "tx_Sender example_tx = Inr ?s" by (simp add: example_tx_def)
  have c: "\<not> chain_id_mismatch 56 example_tx \<and> GetNonce ?C ?p ?s ''latest'' = Inr 5"
    by (simp add: chain_id_mismatch_def example_tx_def big_Uint64_def example_reads)
  have n: "\<not> tx_Nonce example_tx < 5 \<and> GetBalance ?C ?p ?s ''latest'' = Inr 1000000 \<and>
      0 \<le> sint (tx_Gas example_tx)"
    by (simp add: example_tx_def example_reads word_less_nat_alt)
  have b: "\<not> 1000000 < admission_cost example_tx"
    by (simp add: admission_cost_def effective_gas_price_def example_tx_def)
  have f: "\<not> tx_Gas example_tx < 21000" by (simp add: example_tx_def)
  have e: "rlp_Encode ?C example_tx = Inr [1] \<and>
      (tx_GasPrice example_tx \<noteq> None \<or> tx_GasFeeCap example_tx \<noteq> None) \<and>
      unavailable ?p = Map.empty"
    by (simp add: example_codec_def example_tx_def example_store_def store_of_def)
  note T = SendRawTransaction_checks [of ?C "[1]" 56 ?p example_tx ?s 5 1000000]
  note T1 = T [THEN conjunct2, THEN mp, OF d, THEN conjunct2, THEN mp, OF s, THEN conjunct2,
      THEN mp, OF c, THEN conjunct2, THEN mp, OF n, THEN conjunct2, THEN mp, OF b,
      THEN conjunct2, THEN mp, OF f, THEN conjunct2, rule_format, OF e]
  from T1 obtain p' where p': "SendRawTransaction ?C 56 ?p [1] = (Inr (tx_Hash example_tx), p')"
      "kv_strings p' (''pool:pending:'' @ Hash_Hex (tx_Hash example_tx)) = Some [1]"
      "kv_published p' = kv_published ?p @ [(''pool:new'', Hash_Hex (tx_Hash example_tx))]"
    by blast
  have h: "tx_Hash example_tx = replicate 32 0xAB" by (simp add: example_tx_def)
  have k: "kv_published ?p = []" by (simp add: example_store_def store_of_def)
  from p' show ?thesis unfolding h k by auto
qed


end
